theory Spec2Isabelle
  imports Main "HOL-Library.Sublist"
begin

section \<open>JavaScript values used by the extension\<close>

text \<open>
  Strings are \<open>string\<close> (ASCII), process ids and ports are natural numbers, exit codes
  are integers. \<open>toString\<close> is the decimal rendering that a template literal or
  \<^verbatim>\<open>Number.prototype.toString\<close> gives for a non-negative integer.
\<close>

definition digit :: "nat \<Rightarrow> char" where
  "digit d = ''0123456789'' ! d"

function toString :: "nat \<Rightarrow> string" where
  "toString n = (if n < 10 then [digit n] else toString (n div 10) @ [digit (n mod 10)])"
  by pat_completeness auto
termination
  by (relation "measure id") auto

declare toString.simps [simp del]

definition toLowerChar :: "char \<Rightarrow> char" where
  "toLowerChar c =
     (let n = (of_char c :: nat) in if 65 \<le> n \<and> n \<le> 90 then char_of (n + 32) else c)"

definition toLowerCase :: "string \<Rightarrow> string" where
  "toLowerCase s = map toLowerChar s"

text \<open>\<^verbatim>\<open>s.includes(sub)\<close>: \<open>sub\<close> occurs in \<open>s\<close> as a contiguous substring.\<close>

fun includes_str :: "string \<Rightarrow> string \<Rightarrow> bool" where
  "includes_str [] sub = (sub = [])"
| "includes_str (c # cs) sub = (prefix sub (c # cs) \<or> includes_str cs sub)"

text \<open>\<^verbatim>\<open>xs.join(sep)\<close>.\<close>

fun join :: "string \<Rightarrow> string list \<Rightarrow> string" where
  "join sep [] = []"
| "join sep [x] = x"
| "join sep (x # y # ys) = x @ sep @ join sep (y # ys)"

text \<open>Truthiness of \<^verbatim>\<open>string | undefined\<close>: \<^verbatim>\<open>undefined\<close> and the empty string are falsy.\<close>

definition truthy :: "string option \<Rightarrow> bool" where
  "truthy s = (case s of None \<Rightarrow> False | Some v \<Rightarrow> v \<noteq> [])"

text \<open>\<^verbatim>\<open>port || d\<close> on \<^verbatim>\<open>number | undefined\<close>: \<^verbatim>\<open>undefined\<close> and 0 are falsy.\<close>

definition orDefault :: "nat option \<Rightarrow> nat \<Rightarrow> nat" where
  "orDefault p d = (case p of None \<Rightarrow> d | Some v \<Rightarrow> if v = 0 then d else v)"

text \<open>\<^verbatim>\<open>xs.pop()\<close>: the last element (or \<^verbatim>\<open>undefined\<close>) and the shortened array.\<close>

definition pop :: "'a list \<Rightarrow> 'a option \<times> 'a list" where
  "pop xs = (if xs = [] then (None, []) else (Some (last xs), butlast xs))"

section \<open>Constants and enumerations of constants.ts\<close>

text \<open>
  Modelled from the spec: the constant \<^verbatim>\<open>func\<close> of constants.ts, which is not among the
  sources. The task type is named \<^verbatim>\<open>'func'\<close>; src/FuncTaskProvider.ts writes the same
  literal for the task type and the task source.
\<close>

definition func :: string where
  "func = ''func''"

text \<open>
  The other string constants imported from constants.ts are taken as parameters: no
  result below depends on their values.
\<close>

record Constants =
  hostStartCommand :: string
  extInstallCommand :: string
  hostStartTaskName :: string
  extInstallTaskName :: string
  funcWatchProblemMatcher :: string
  publishTaskId :: string
  funcPackId :: string

text \<open>
  The members of \<^verbatim>\<open>ProjectLanguage\<close> and \<^verbatim>\<open>ProjectRuntime\<close> that the sources name;
  every other member is \<open>OtherLanguage\<close>.
\<close>

datatype ProjectLanguage = CSharp | Java | JavaScript | Python | OtherLanguage string

datatype ProjectRuntime = v1 | v2

text \<open>
  The members of \<^verbatim>\<open>Platform\<close>; \<^verbatim>\<open>process.platform\<close> can also be a platform that the
  extension does not name.
\<close>

datatype Platform = Windows | MacOS | Linux | OtherPlatform string

section \<open>Errors\<close>

text \<open>Every \<^verbatim>\<open>throw\<close> and promise rejection of the sources is a value of this type.\<close>

datatype Error =
    UserCancelledError
  | Todo
  | NoFuncTask
  | InvalidSettingValue string
  | FailedToFindFuncHost int
  | TaskFailedToStartDebugging string int
  | NoWindowsProcessTree string
  | FuncTaskStopped
  | NoMatchingFunctionApp string
  | PythonNotAvailableOnWindows
  | PreDeployTaskFailed string int
  | NoPreDeployTaskError string
  | ExternalError string

section \<open>Tasks\<close>

record WorkspaceFolder =
  fsPath :: string

datatype TaskScope = Global | Workspace | Folder WorkspaceFolder

type_synonym Env = "(string \<times> string) list"

datatype Execution =
    ProcessExecution string "string list" "Env option"
  | ShellExecution string "Env option"

record TaskDefinition =
  td_type :: string
  td_command :: string
  td_port :: "nat option"

record Task =
  task_definition :: TaskDefinition
  task_scope :: "TaskScope option"
  task_name :: string
  task_source :: string
  task_execution :: Execution
  task_problemMatchers :: "string list"
  task_isBackground :: bool

text \<open>
  \<^verbatim>\<open>new Task(definition, folder, name, source, execution, problemMatcher?)\<close>;
  \<^verbatim>\<open>isBackground\<close> starts out false.
\<close>

definition newTask ::
  "TaskDefinition \<Rightarrow> WorkspaceFolder \<Rightarrow> string \<Rightarrow> string \<Rightarrow> Execution \<Rightarrow> string list \<Rightarrow> Task" where
  "newTask d folder n s e pm =
     \<lparr>task_definition = d, task_scope = Some (Folder folder), task_name = n, task_source = s,
      task_execution = e, task_problemMatchers = pm, task_isBackground = False\<rparr>"

section \<open>The task provider\<close>

text \<open>
  The Python extension as \<^verbatim>\<open>getPythonCommand\<close> sees it: whether it is active, and its
  \<^verbatim>\<open>exports.debug.getRemoteLauncherCommand\<close> when it exports one.
\<close>

record PyExtension =
  isActive :: bool
  getRemoteLauncherCommand :: "(string \<Rightarrow> nat \<Rightarrow> string list) option"

text \<open>
  What the provider reads from the editor: the workspace folders, the settings of a
  folder, the platform, and the helpers of modules that are not among the sources
  (\<^verbatim>\<open>isFunctionProject\<close>, \<^verbatim>\<open>getProjectLanguage\<close>, \<^verbatim>\<open>cpUtils.joinCommands\<close>, \<^verbatim>\<open>path.join\<close>).
\<close>

record Editor =
  workspaceFolders :: "WorkspaceFolder list option"
  isFunctionProject :: "string \<Rightarrow> bool"
  projectLanguageSetting :: "string \<Rightarrow> ProjectLanguage option"
  pythonVenvSetting :: "string \<Rightarrow> string option"
  nodeDebugPortSetting :: "string \<Rightarrow> nat option"
  getProjectLanguage :: "string \<Rightarrow> ProjectLanguage option"
  platform :: Platform
  pyExtension :: "PyExtension option"
  joinCommands :: "Platform \<Rightarrow> string list \<Rightarrow> string"
  pathJoin :: "string list \<Rightarrow> string"

subsection \<open>PythonProjectCreator: virtual-environment commands\<close>

definition getVenvActivatePath :: "Editor \<Rightarrow> string \<Rightarrow> Platform \<Rightarrow> string" where
  "getVenvActivatePath ed venvName pf =
     (case pf of
        Windows \<Rightarrow> pathJoin ed [''.'', venvName, ''Scripts'', ''activate'']
      | _ \<Rightarrow> pathJoin ed [''.'', venvName, ''bin'', ''activate''])"

definition getVenvActivateCommand :: "Editor \<Rightarrow> string \<Rightarrow> Platform \<Rightarrow> string" where
  "getVenvActivateCommand ed venvName pf =
     (let venvActivatePath = getVenvActivatePath ed venvName pf in
      case pf of
        Windows \<Rightarrow> venvActivatePath
      | _ \<Rightarrow> ''. '' @ venvActivatePath)"

definition convertToVenvCommand :: "Editor \<Rightarrow> string \<Rightarrow> Platform \<Rightarrow> string list \<Rightarrow> string" where
  "convertToVenvCommand ed venvName pf commands =
     joinCommands ed pf (getVenvActivateCommand ed venvName pf # commands)"

subsection \<open>FuncTaskProvider with install and host-start tasks\<close>


definition getPythonCommand :: "Editor \<Rightarrow> string \<Rightarrow> nat \<Rightarrow> Error + string" where
  "getPythonCommand ed host port =
     (case pyExtension ed of
        None \<Rightarrow> Inl Todo
      | Some ext \<Rightarrow>
          (case getRemoteLauncherCommand ext of
             None \<Rightarrow> Inl Todo
           | Some launcher \<Rightarrow> Inr (join '' '' (launcher host port))))"

definition getHostStartTask :: "Constants \<Rightarrow> Editor \<Rightarrow> WorkspaceFolder \<Rightarrow> Error + Task option" where
  "getHostStartTask k ed folder =
     (let host = ''127.0.0.1'';
          port = (None :: nat option);
          command = ''func host start'';
          language = projectLanguageSetting ed (fsPath folder);
          mk = (\<lambda>command options.
                  Inr (Some (newTask \<lparr>td_type = func, td_command = hostStartCommand k, td_port = None\<rparr>
                         folder (hostStartCommand k) func
                         (ShellExecution command options) [funcWatchProblemMatcher k])))
      in case language of
           Some Python \<Rightarrow>
             (let port = orDefault port 9091;
                  venvName = pythonVenvSetting ed (fsPath folder);
                  command = (if truthy venvName
                             then convertToVenvCommand ed (the venvName) (platform ed) [command]
                             else command)
              in case getPythonCommand ed host port of
                   Inl e \<Rightarrow> Inl e
                 | Inr py \<Rightarrow> mk command (Some [(''languageWorkers__python__arguments'', py)]))
         | Some JavaScript \<Rightarrow>
             (let port = orDefault port 5858
              in mk command (Some [(''languageWorkers__node__arguments'', ''--inspect='' @ toString port)]))
         | Some Java \<Rightarrow>
             (let port = orDefault port 5005
              in mk command (Some [(''languageWorkers__java__arguments'',
                   ''-agentlib:jdwp=transport=dt_socket,server=y,suspend=n,address='' @ toString port)]))
         | _ \<Rightarrow> mk command None)"



subsection \<open>FuncTaskProvider of src/FuncTaskProvider.ts\<close>




section \<open>JavaScriptProjectCreator\<close>

definition funcNodeDebugArgs :: string where
  "funcNodeDebugArgs = ''--inspect=5858''"

definition funcNodeDebugEnvVar :: string where
  "funcNodeDebugEnvVar = ''languageWorkers__node__arguments''"

record DebugConfiguration =
  dc_name :: string
  dc_type :: string
  dc_request :: string
  dc_port :: nat
  dc_preLaunchTask :: string

record LaunchJson =
  lj_version :: string
  lj_configurations :: "DebugConfiguration list"

definition getLaunchJson :: "Constants \<Rightarrow> LaunchJson" where
  "getLaunchJson k =
     \<lparr>lj_version = ''0.2.0'',
      lj_configurations =
        [\<lparr>dc_name = ''Attach to JavaScript Functions'', dc_type = ''node'', dc_request = ''attach'',
          dc_port = 5858, dc_preLaunchTask = hostStartTaskName k\<rparr>]\<rparr>"

section \<open>pickFuncProcess\<close>

subsection \<open>Promises, listeners and the event loop\<close>

text \<open>
  A task object has an identity (\<^verbatim>\<open>===\<close> on objects compares identities) and contents.
\<close>

record TaskObject =
  objectId :: nat
  task :: Task

definition sameObject :: "TaskObject \<Rightarrow> TaskObject \<Rightarrow> bool" where
  "sameObject a b = (objectId a = objectId b)"

text \<open>
  \<^verbatim>\<open>TaskProcessStartEvent\<close> carries \<^verbatim>\<open>execution.task\<close> and \<^verbatim>\<open>processId\<close>;
  \<^verbatim>\<open>TaskProcessEndEvent\<close> carries \<^verbatim>\<open>execution.task\<close> and \<^verbatim>\<open>exitCode\<close>.
\<close>

datatype TaskProcessEvent =
    TaskProcessStart TaskObject nat
  | TaskProcessEnd TaskObject int

datatype Callback = TaskEvent TaskProcessEvent | TimerFired

text \<open>
  The runtime's part: the order in which it invokes the callbacks an executor has
  registered. The task events are everything the editor fires after the listeners were
  registered, each with the time in milliseconds since then, in the order they fire;
  the callback of a \<^verbatim>\<open>setTimeout\<close> with delay \<open>d\<close> runs before the first event that fires at
  time \<open>d\<close> or later, or after the last event. Without a timer only task events are
  dispatched.
\<close>

fun eventLoop :: "nat option \<Rightarrow> (nat \<times> TaskProcessEvent) list \<Rightarrow> Callback list" where
  "eventLoop None events = map (\<lambda>te. TaskEvent (snd te)) events"
| "eventLoop (Some d) [] = [TimerFired]"
| "eventLoop (Some d) ((t, e) # events) =
     (if d \<le> t then TimerFired # map (\<lambda>te. TaskEvent (snd te)) ((t, e) # events)
      else TaskEvent e # eventLoop (Some d) events)"

datatype 'a PromiseState = Pending | Resolved 'a | Rejected Error

text \<open>
  A promise under construction together with the disposables of its executor:
  \<open>listener\<close> and \<open>errorListener\<close> say whether that listener is still registered.
\<close>

record 'a Waiting =
  promise :: "'a PromiseState"
  listener :: bool
  errorListener :: bool

text \<open>\<^verbatim>\<open>resolve\<close> and \<^verbatim>\<open>reject\<close> settle a pending promise and do nothing to a settled one.\<close>

definition resolve :: "'a \<Rightarrow> 'a Waiting \<Rightarrow> 'a Waiting" where
  "resolve v w = (if promise w = Pending then w\<lparr>promise := Resolved v\<rparr> else w)"

definition reject :: "Error \<Rightarrow> 'a Waiting \<Rightarrow> 'a Waiting" where
  "reject e w = (if promise w = Pending then w\<lparr>promise := Rejected e\<rparr> else w)"

text \<open>
  The outcome of an \<^verbatim>\<open>async\<close> function: it returns, it throws, or the promise it awaits
  never settles.
\<close>

datatype 'a Completion = Returned 'a | Threw Error | NeverSettles

definition await :: "'a PromiseState \<Rightarrow> 'a Completion" where
  "await p = (case p of Pending \<Rightarrow> NeverSettles | Resolved v \<Rightarrow> Returned v | Rejected e \<Rightarrow> Threw e)"

subsection \<open>startFuncTask\<close>

text \<open>
  The three callbacks that the executor of \<^verbatim>\<open>waitForStartPromise\<close> registers:
  \<^verbatim>\<open>onDidStartTaskProcess\<close>, \<^verbatim>\<open>onDidEndTaskProcess\<close> and the timer.
\<close>

definition startFuncTask_callback ::
  "(Task \<Rightarrow> bool) \<Rightarrow> Error \<Rightarrow> string Waiting \<Rightarrow> Callback \<Rightarrow> string Waiting" where
  "startFuncTask_callback isFuncHostTask timeoutError w cb =
     (case cb of
        TaskEvent (TaskProcessStart t processId) \<Rightarrow>
          (if listener w then
             (if isFuncHostTask (task t)
              then (resolve (toString processId) w)\<lparr>listener := False\<rparr>
              else w)
           else w)
      | TaskEvent (TaskProcessEnd t exitCode) \<Rightarrow>
          (if errorListener w then
             (if exitCode \<noteq> 0
              then (reject (TaskFailedToStartDebugging (task_name (task t)) exitCode) w)
                     \<lparr>errorListener := False\<rparr>
              else w)
           else w)
      | TimerFired \<Rightarrow> reject timeoutError w)"

text \<open>
  The delay that \<^verbatim>\<open>setTimeout\<close> of the Node runtime uses for the delay it is given: a
  delay below 1 or above 2147483647 milliseconds is set to 1.
\<close>

definition setTimeoutDelay :: "int \<Rightarrow> nat" where
  "setTimeoutDelay ms = (if 1 \<le> ms \<and> ms \<le> 2147483647 then nat ms else 1)"

text \<open>
  The promise with its executor run, \<^verbatim>\<open>setTimeout(..., timeoutInSeconds * 1000)\<close> included,
  and the callbacks dispatched.
\<close>

definition waitForStartPromise ::
  "(Task \<Rightarrow> bool) \<Rightarrow> int \<Rightarrow> Error \<Rightarrow> (nat \<times> TaskProcessEvent) list \<Rightarrow> string PromiseState" where
  "waitForStartPromise isFuncHostTask timeoutInSeconds timeoutError events =
     promise (foldl (startFuncTask_callback isFuncHostTask timeoutError)
                \<lparr>promise = Pending, listener = True, errorListener = True\<rparr>
                (eventLoop (Some (setTimeoutDelay (timeoutInSeconds * 1000))) events))"

text \<open>
  \<open>executeTask\<close> is the error with which \<^verbatim>\<open>vscode.tasks.executeTask\<close> rejects, if it does.
\<close>

definition startFuncTask ::
  "(Task \<Rightarrow> bool) \<Rightarrow> Error option \<Rightarrow> (nat \<times> TaskProcessEvent) list \<Rightarrow> int \<Rightarrow> Error \<Rightarrow> string Completion" where
  "startFuncTask isFuncHostTask executeTask events timeoutInSeconds timeoutError =
     (let p = waitForStartPromise isFuncHostTask timeoutInSeconds timeoutError events
      in case executeTask of
           Some e \<Rightarrow> Threw e
         | None \<Rightarrow> await p)"

subsection \<open>Numbers from pid strings\<close>

definition isDigit :: "char \<Rightarrow> bool" where
  "isDigit c = (48 \<le> (of_char c :: nat) \<and> (of_char c :: nat) \<le> 57)"

definition digitsValue :: "string \<Rightarrow> nat" where
  "digitsValue ds = foldl (\<lambda>acc c. acc * 10 + ((of_char c :: nat) - 48)) 0 ds"

text \<open>
  \<^verbatim>\<open>parseInt(s)\<close> on an unsigned decimal string: the leading digits, \<^verbatim>\<open>NaN\<close> (here \<open>None\<close>)
  when there is none. \<^verbatim>\<open>Number(s)\<close>: the whole string must be digits; the empty string is 0.
  Signs, blanks and other radices do not occur in a pid.
\<close>

definition parseInt :: "string \<Rightarrow> nat option" where
  "parseInt s = (let ds = takeWhile isDigit s in if ds = [] then None else Some (digitsValue ds))"

definition Number :: "string \<Rightarrow> nat option" where
  "Number s = (if list_all isDigit s then Some (digitsValue s) else None)"

subsection \<open>getInnermostUnixPid\<close>

record PS =
  PID :: string
  PPID :: string
  COMMAND :: string

text \<open>
  \<open>unixPsTree\<close> is the ps-tree module: what it passes to its callback (error, children)
  for a root pid.
\<close>

definition getInnermostUnixPid ::
  "(nat option \<Rightarrow> Error option \<times> PS list) \<Rightarrow> string \<Rightarrow> string Completion" where
  "getInnermostUnixPid unixPsTree pid =
     (case unixPsTree (parseInt pid) of
        (Some error, children) \<Rightarrow> Threw error
      | (None, children) \<Rightarrow>
          (case fst (pop children) of
             Some child \<Rightarrow> Returned (PID child)
           | None \<Rightarrow> Returned pid))"

subsection \<open>getInnermostWindowsPid\<close>

datatype IProcessTreeNode =
  IProcessTreeNode (node_pid: nat) (node_name: string) (node_children: "IProcessTreeNode list")

text \<open>\<^verbatim>\<open>while (psTree.children.length > 0) { psTree = psTree.children[0]; }\<close>\<close>

fun firstLeaf :: "IProcessTreeNode \<Rightarrow> IProcessTreeNode" where
  "firstLeaf (IProcessTreeNode p n []) = IProcessTreeNode p n []"
| "firstLeaf (IProcessTreeNode p n (c # cs)) = firstLeaf c"

text \<open>
  One pass of the polling loop as the runtime answers it: the milliseconds that
  \<^verbatim>\<open>getProcessTree\<close> takes to call back, the tree it passes (or \<^verbatim>\<open>undefined\<close>), and the
  milliseconds by which \<^verbatim>\<open>delay(500)\<close> overshoots.
\<close>

record Poll =
  fetchMillis :: nat
  psTree :: "IProcessTreeNode option"
  delayOverrun :: nat

text \<open>
  The \<^verbatim>\<open>while (Date.now() < maxTime)\<close> loop; \<open>i\<close> counts the calls of \<^verbatim>\<open>getProcessTree\<close> and
  \<open>now\<close> is \<^verbatim>\<open>Date.now()\<close> at the loop test.
\<close>

function getInnermostWindowsPid_loop ::
  "(nat \<Rightarrow> Poll) \<Rightarrow> int \<Rightarrow> Error \<Rightarrow> nat \<Rightarrow> nat \<Rightarrow> string Completion" where
  "getInnermostWindowsPid_loop getProcessTree maxTime timeoutError i now =
     (if int now < maxTime then
        (case psTree (getProcessTree i) of
           None \<Rightarrow> Threw FuncTaskStopped
         | Some tree \<Rightarrow>
             (let leaf = firstLeaf tree in
              if includes_str (toLowerCase (node_name leaf)) ''func''
              then Returned (toString (node_pid leaf))
              else getInnermostWindowsPid_loop getProcessTree maxTime timeoutError (Suc i)
                     (now + fetchMillis (getProcessTree i) + 500 + delayOverrun (getProcessTree i))))
      else Threw timeoutError)"
  by pat_completeness auto
termination
  by (relation "measure (\<lambda>(g, maxTime, e, i, now). nat (maxTime - int now))") auto

declare getInnermostWindowsPid_loop.simps [simp del]

text \<open>
  \<open>windowsProcessTree\<close> is what \<^verbatim>\<open>tryFetchNodeModule\<close> yields: the module's
  \<^verbatim>\<open>getProcessTree\<close> for a root pid, or \<^verbatim>\<open>undefined\<close>. \<open>dateNow\<close> is \<^verbatim>\<open>Date.now()\<close> when
  \<open>maxTime\<close> is computed.
\<close>

definition getInnermostWindowsPid ::
  "((nat option \<Rightarrow> nat \<Rightarrow> Poll) option) \<Rightarrow> nat \<Rightarrow> string \<Rightarrow> int \<Rightarrow> Error \<Rightarrow> string Completion" where
  "getInnermostWindowsPid windowsProcessTree dateNow pid timeoutInSeconds timeoutError =
     (let moduleName = ''windows-process-tree'' in
      case windowsProcessTree of
        None \<Rightarrow> Threw (NoWindowsProcessTree moduleName)
      | Some getProcessTree \<Rightarrow>
          (let maxTime = int dateNow + timeoutInSeconds * 1000
           in getInnermostWindowsPid_loop (getProcessTree (Number pid)) maxTime timeoutError 0 dateNow))"

subsection \<open>pickFuncProcess\<close>

text \<open>
  What \<^verbatim>\<open>pickFuncProcess\<close> gets from the editor and the system. \<open>pickProcessTimeout\<close> is
  \<^verbatim>\<open>Number(settingValue)\<close> in whole seconds, \<open>None\<close> for \<^verbatim>\<open>NaN\<close>. The awaited
  \<^verbatim>\<open>stopFuncHostPromise\<close> is taken to settle, and the telemetry property is not recorded.
\<close>

record PickProcess =
  validateFuncCoreToolsInstalled :: bool
  fetchTasks :: "TaskObject list"
  isFuncHostTask :: "Task \<Rightarrow> bool"
  pickProcessTimeout :: "int option"
  executeTask :: "Error option"
  taskEvents :: "(nat \<times> TaskProcessEvent) list"
  isWindows :: bool
  windowsProcessTree :: "(nat option \<Rightarrow> nat \<Rightarrow> Poll) option"
  dateNow :: nat
  unixPsTree :: "nat option \<Rightarrow> Error option \<times> PS list"

definition pickFuncProcess :: "PickProcess \<Rightarrow> string Completion" where
  "pickFuncProcess sys =
     (if \<not> validateFuncCoreToolsInstalled sys then Threw UserCancelledError
      else case find (\<lambda>t. isFuncHostTask sys (task t)) (fetchTasks sys) of
        None \<Rightarrow> Threw NoFuncTask
      | Some funcTask \<Rightarrow>
          (let settingKey = ''pickProcessTimeout'' in
           case pickProcessTimeout sys of
             None \<Rightarrow> Threw (InvalidSettingValue settingKey)
           | Some timeoutInSeconds \<Rightarrow>
               (let timeoutError = FailedToFindFuncHost timeoutInSeconds in
                case startFuncTask (isFuncHostTask sys) (executeTask sys) (taskEvents sys)
                       timeoutInSeconds timeoutError of
                  Returned pid \<Rightarrow>
                    (if isWindows sys
                     then getInnermostWindowsPid (windowsProcessTree sys) (dateNow sys) pid
                            timeoutInSeconds timeoutError
                     else getInnermostUnixPid (unixPsTree sys) pid)
                | Threw e \<Rightarrow> Threw e
                | NeverSettles \<Rightarrow> NeverSettles)))"

section \<open>The deploy command\<close>

subsection \<open>Effects and asynchronous control flow\<close>

text \<open>
  What deploy.ts does to the outside is recorded in order: the calls that matter to the
  deployment, the lines sent to the output channel and the telemetry properties that
  \<^verbatim>\<open>runPreDeployTask\<close> and the confirmation step set.
  Localized messages are constructors with their arguments.
\<close>

datatype Call =
    ShowConfirmDeployWarning bool
  | ExecuteTask nat
  | ClientStop
  | AppserviceDeploy string
  | ClientStart
  | ShowDeployCompleteMessage

datatype Message =
    IgnoringPreDeployTask string
  | NoPreDeployTaskErrorLine string
  | NoPreDeployTaskWarning string
  | HowToAddPreDeploy
  | HowToAddPreDeploy1
  | HowToAddPreDeploy2
  | HowToAddPreDeploy3
  | StopFunctionApp
  | StartFunctionApp
  | DeployComplete

datatype OutputChannelCall = AppendLine "Message list" | ShowChannel bool

record World =
  calls :: "Call list"
  outputChannel :: "OutputChannelCall list"
  telemetryProperties :: "(string \<times> string) list"

definition logCall :: "Call \<Rightarrow> World \<Rightarrow> World" where
  "logCall c w = w\<lparr>calls := calls w @ [c]\<rparr>"

definition toOutput :: "OutputChannelCall \<Rightarrow> World \<Rightarrow> World" where
  "toOutput c w = w\<lparr>outputChannel := outputChannel w @ [c]\<rparr>"

definition setTelemetry :: "string \<Rightarrow> string \<Rightarrow> World \<Rightarrow> World" where
  "setTelemetry key v w = w\<lparr>telemetryProperties := telemetryProperties w @ [(key, v)]\<rparr>"

type_synonym 'a Async = "World \<Rightarrow> 'a Completion \<times> World"

definition returns :: "'a \<Rightarrow> 'a Async" where
  "returns x w = (Returned x, w)"

definition throws :: "Error \<Rightarrow> 'a Async" where
  "throws e w = (Threw e, w)"

definition perform :: "(World \<Rightarrow> World) \<Rightarrow> unit Async" where
  "perform f w = (Returned (), f w)"

text \<open>Sequencing of awaited steps: a throw or a promise that never settles ends the function.\<close>

definition andThen :: "'a Async \<Rightarrow> ('a \<Rightarrow> 'b Async) \<Rightarrow> 'b Async" where
  "andThen m f w =
     (case m w of
        (Returned x, w') \<Rightarrow> f x w'
      | (Threw e, w') \<Rightarrow> (Threw e, w')
      | (NeverSettles, w') \<Rightarrow> (NeverSettles, w'))"

text \<open>
  \<^verbatim>\<open>try { body } finally { fin }\<close>: the finally block runs when the body returns or throws,
  and a throw of the finally block replaces the body's outcome.
\<close>

definition tryFinally :: "'a Async \<Rightarrow> unit Async \<Rightarrow> 'a Async" where
  "tryFinally body fin w =
     (case body w of
        (NeverSettles, w') \<Rightarrow> (NeverSettles, w')
      | (r, w') \<Rightarrow>
          (case fin w' of
             (Returned u, w'') \<Rightarrow> (r, w'')
           | (Threw e, w'') \<Rightarrow> (Threw e, w'')
           | (NeverSettles, w'') \<Rightarrow> (NeverSettles, w'')))"

text \<open>The awaited outcome of a call into the editor, the SDK or another module.\<close>

definition external :: "Error + 'a \<Rightarrow> 'a Async" where
  "external r w = (case r of Inl e \<Rightarrow> (Threw e, w) | Inr x \<Rightarrow> (Returned x, w))"

definition externalVoid :: "Error option \<Rightarrow> unit Async" where
  "externalVoid r w = (case r of Some e \<Rightarrow> (Threw e, w) | None \<Rightarrow> (Returned (), w))"

subsection \<open>Site configuration and strict equality\<close>

text \<open>
  The members of \<^verbatim>\<open>ScmType\<close> (\<open>ScmNone\<close> is \<^verbatim>\<open>ScmType.None\<close>); \<open>OtherScmType\<close> is any other
  string that the service reports.
\<close>

datatype ScmType = ScmNone | LocalGit | GitHub | OtherScmType string

record SiteConfigResource =
  scmType :: "ScmType option"

text \<open>
  The values that deploy compares with \<^verbatim>\<open>===\<close> and \<^verbatim>\<open>!==\<close>: \<^verbatim>\<open>undefined\<close>, a string of
  \<^verbatim>\<open>ScmType\<close>, and the site-configuration object. Values of different types are never
  strictly equal.
\<close>

datatype JsValue = Undefined | StringValue ScmType | ObjectValue SiteConfigResource

fun strictEquals :: "JsValue \<Rightarrow> JsValue \<Rightarrow> bool" where
  "strictEquals Undefined Undefined = True"
| "strictEquals (StringValue a) (StringValue b) = (a = b)"
| "strictEquals (ObjectValue a) (ObjectValue b) = (a = b)"
| "strictEquals _ _ = False"

definition scmTypeValue :: "SiteConfigResource \<Rightarrow> JsValue" where
  "scmTypeValue siteConfig = (case scmType siteConfig of None \<Rightarrow> Undefined | Some s \<Rightarrow> StringValue s)"

subsection \<open>What deploy gets from the editor, the user and the service\<close>

record SlotTreeItem =
  fullId :: string
  isLinuxPreview :: bool

datatype Target = TargetUri string | TargetString string | TargetNode SlotTreeItem | TargetUndefined

datatype FunctionAppId = IdUndefined | IdString string | IdObject

datatype DialogResponse = ChoseDeploy | ChoseCancel | Dismissed

text \<open>
  The outcomes of the calls that deploy awaits. The helpers of deploy.ts that only talk
  to the user or the service (\<^verbatim>\<open>appendDeploySubpathSetting\<close>, \<^verbatim>\<open>getDeployFsPath\<close>,
  \<^verbatim>\<open>verifyWebContentSettings\<close>, \<^verbatim>\<open>getJavaFolderPath\<close>, \<^verbatim>\<open>verifyRuntimeIsCompatible\<close>,
  \<^verbatim>\<open>listHttpTriggerUrls\<close>) stand here with their outcome; none of them stops, starts or
  deploys to the function app. \<open>treeItemsCreated\<close> are the nodes for which
  \<^verbatim>\<open>onTreeItemCreate\<close> fires while deploy's listener is registered.
\<close>

record Deployment =
  appendDeploySubpathSetting :: "string \<Rightarrow> string"
  getDeployFsPath :: "Error + string"
  ensureFolderIsOpen :: "Error + string"
  showTreeItemPicker :: "Error + SlotTreeItem"
  findTreeItem :: "string \<Rightarrow> SlotTreeItem option"
  treeItemsCreated :: "SlotTreeItem list"
  projectLanguage :: "Error + ProjectLanguage"
  projectRuntime :: "Error + ProjectRuntime"
  verifyWebContentSettings :: "Error option"
  getJavaFolderPath :: "Error + string"
  verifyRuntimeIsCompatible :: "Error option"
  getSiteConfig :: "Error + SiteConfigResource"
  confirmDeployResponse :: DialogResponse
  preDeployTaskSetting :: "string option"
  tasks :: "TaskObject list"
  isPathEqual :: "string \<Rightarrow> string \<Rightarrow> bool"
  isSubpath :: "string \<Rightarrow> string \<Rightarrow> bool"
  executePreDeployTask :: "Error option"
  taskProcessEvents :: "(nat \<times> TaskProcessEvent) list"
  clientStop :: "Error option"
  appserviceDeploy :: "Error option"
  clientStart :: "Error option"
  listHttpTriggerUrls :: "Error option"

text \<open>
  \<^verbatim>\<open>ext.ui.showWarningMessage\<close> belongs to vscode-azureextensionui: it returns the button
  chosen and throws \<^verbatim>\<open>UserCancelledError\<close> when the user chooses Cancel or dismisses the
  dialog.
\<close>

definition showWarningMessage :: "DialogResponse \<Rightarrow> unit Async" where
  "showWarningMessage r =
     (case r of ChoseDeploy \<Rightarrow> returns () | ChoseCancel \<Rightarrow> throws UserCancelledError
      | Dismissed \<Rightarrow> throws UserCancelledError)"

subsection \<open>runPreDeployTask\<close>

text \<open>
  The test inside the \<^verbatim>\<open>for (const task of tasks)\<close> loop: the names agree up to case, the
  task has a scope, the scope is a workspace folder (it has a \<^verbatim>\<open>uri\<close>) and the folder is
  the deploy path or contains it.
\<close>

definition isPreDeployTask :: "Deployment \<Rightarrow> string \<Rightarrow> string \<Rightarrow> TaskObject \<Rightarrow> bool" where
  "isPreDeployTask env taskName deployFsPath t =
     (toLowerCase (task_name (task t)) = toLowerCase taskName \<and> task_scope (task t) \<noteq> None \<and>
      (case task_scope (task t) of
         Some (Folder workspaceFolder) \<Rightarrow>
           isPathEqual env (fsPath workspaceFolder) deployFsPath
           \<or> isSubpath env (fsPath workspaceFolder) deployFsPath
       | _ \<Rightarrow> False))"

text \<open>The loop with its \<^verbatim>\<open>break\<close>: the first task that passes the test.\<close>

fun findPreDeployTask :: "Deployment \<Rightarrow> string \<Rightarrow> string \<Rightarrow> TaskObject list \<Rightarrow> TaskObject option" where
  "findPreDeployTask env taskName deployFsPath [] = None"
| "findPreDeployTask env taskName deployFsPath (t # ts) =
     (if isPreDeployTask env taskName deployFsPath t then Some t
      else findPreDeployTask env taskName deployFsPath ts)"

text \<open>
  The only callback that the executor of the awaited promise registers:
  \<^verbatim>\<open>onDidEndTaskProcess\<close>. It sets no timer.
\<close>

definition runPreDeployTask_callback :: "TaskObject \<Rightarrow> unit Waiting \<Rightarrow> Callback \<Rightarrow> unit Waiting" where
  "runPreDeployTask_callback preDeployTask w cb =
     (case cb of
        TaskEvent (TaskProcessEnd t exitCode) \<Rightarrow>
          (if listener w then
             (if sameObject t preDeployTask then
                (let w = w\<lparr>listener := False\<rparr> in
                 if exitCode = 0 then resolve () w
                 else reject (PreDeployTaskFailed (task_name (task t)) exitCode) w)
              else w)
           else w)
      | _ \<Rightarrow> w)"

definition waitForPreDeployTask :: "TaskObject \<Rightarrow> (nat \<times> TaskProcessEvent) list \<Rightarrow> unit PromiseState" where
  "waitForPreDeployTask preDeployTask events =
     promise (foldl (runPreDeployTask_callback preDeployTask)
                \<lparr>promise = Pending, listener = True, errorListener = False\<rparr>
                (eventLoop None events))"

text \<open>
  Lines 291 to 309: the task name of the setting or, when the setting is not defined, the
  one that goes with the language; \<open>None\<close> where the \<^verbatim>\<open>switch\<close> returns from the function.
\<close>

definition preDeployTaskName ::
  "Constants \<Rightarrow> string option \<Rightarrow> ProjectLanguage \<Rightarrow> ProjectRuntime \<Rightarrow> string option" where
  "preDeployTaskName k taskName language runtime =
     (if truthy taskName then taskName
      else (case language of
              CSharp \<Rightarrow> Some (publishTaskId k)
            | JavaScript \<Rightarrow> (if runtime = v1 then None else Some (extInstallTaskName k))
            | Python \<Rightarrow> Some (funcPackId k)
            | _ \<Rightarrow> None))"

definition runPreDeployTask ::
  "Constants \<Rightarrow> Deployment \<Rightarrow> string \<Rightarrow> ProjectLanguage \<Rightarrow> bool \<Rightarrow> ProjectRuntime \<Rightarrow> unit Async" where
  "runPreDeployTask k env deployFsPath language isZipDeploy runtime w =
     (let taskName = preDeployTaskSetting env in
      if \<not> isZipDeploy then
        (if truthy taskName
         then (Returned (), toOutput (AppendLine [IgnoringPreDeployTask (the taskName)]) w)
         else (Returned (), w))
      else
        (let isTaskNameDefinedInSettings = truthy taskName
         in case preDeployTaskName k taskName language runtime of
              None \<Rightarrow> (Returned (), w)
            | Some taskName \<Rightarrow>
                (let w = setTelemetry ''preDeployTask'' taskName w in
                 case findPreDeployTask env taskName deployFsPath (tasks env) of
                   Some preDeployTask \<Rightarrow>
                     (let w = setTelemetry ''foundPreDeployTask'' ''true'' w;
                          w = logCall (ExecuteTask (objectId preDeployTask)) w
                      in case executePreDeployTask env of
                           Some e \<Rightarrow> (Threw e, w)
                         | None \<Rightarrow> (await (waitForPreDeployTask preDeployTask (taskProcessEvents env)), w))
                 | None \<Rightarrow>
                     (let w = setTelemetry ''foundPreDeployTask'' ''false'' w;
                          messageLines =
                            (if isTaskNameDefinedInSettings then [NoPreDeployTaskErrorLine taskName]
                             else [NoPreDeployTaskWarning taskName, HowToAddPreDeploy])
                            @ [HowToAddPreDeploy1, HowToAddPreDeploy2, HowToAddPreDeploy3]
                      in if isTaskNameDefinedInSettings then (Threw (NoPreDeployTaskError taskName), w)
                         else (Returned (), toOutput (AppendLine messageLines) (toOutput (ShowChannel True) w))))))"

subsection \<open>deploy\<close>

text \<open>What the first part of deploy (up to the confirmation prompt) has established.\<close>

record Deploying =
  d_node :: SlotTreeItem
  d_language :: ProjectLanguage
  d_runtime :: ProjectRuntime
  d_deployFsPath :: string
  d_workspaceFsPath :: string
  d_siteConfig :: SiteConfigResource
  d_isZipDeploy :: bool

text \<open>
  The \<^verbatim>\<open>try\<close>/\<^verbatim>\<open>finally\<close> that chooses the node while the \<^verbatim>\<open>onTreeItemCreate\<close> listener is
  registered: the node and the \<^verbatim>\<open>newNodes\<close> collected. With a node as target nothing is
  awaited between registering and disposing the listener.
\<close>

definition chooseNode :: "Deployment \<Rightarrow> Target \<Rightarrow> FunctionAppId \<Rightarrow> (SlotTreeItem \<times> SlotTreeItem list) Async" where
  "chooseNode env target functionAppId =
     (case target of
        TargetNode n \<Rightarrow> returns (n, [])
      | _ \<Rightarrow>
          (case functionAppId of
             IdString s \<Rightarrow>
               (if s = [] then
                  andThen (external (showTreeItemPicker env)) (\<lambda>n. returns (n, treeItemsCreated env))
                else
                  (case findTreeItem env s of
                     Some functionAppNode \<Rightarrow> returns (functionAppNode, treeItemsCreated env)
                   | None \<Rightarrow> throws (NoMatchingFunctionApp s)))
           | _ \<Rightarrow> andThen (external (showTreeItemPicker env)) (\<lambda>n. returns (n, treeItemsCreated env))))"

text \<open>Lines 34 to 101 of deploy.ts: everything before \<^verbatim>\<open>runPreDeployTask\<close>.\<close>

definition beforePreDeployTask :: "Deployment \<Rightarrow> Target \<Rightarrow> FunctionAppId \<Rightarrow> Deploying Async" where
  "beforePreDeployTask env target functionAppId =
     andThen
       (case target of
          TargetUri p \<Rightarrow> returns (appendDeploySubpathSetting env p)
        | TargetString p \<Rightarrow> returns (appendDeploySubpathSetting env p)
        | _ \<Rightarrow> external (getDeployFsPath env))
     (\<lambda>deployFsPath.
     andThen (external (ensureFolderIsOpen env))
     (\<lambda>workspaceFsPath.
     andThen (chooseNode env target functionAppId)
     (\<lambda>(node, newNodes).
     let confirmDeployment = \<not> list_ex (\<lambda>newNode. fullId newNode = fullId node) newNodes in
     andThen (external (projectLanguage env))
     (\<lambda>language.
     andThen (external (projectRuntime env))
     (\<lambda>runtime.
     andThen (if language = Python \<and> \<not> isLinuxPreview node
              then throws PythonNotAvailableOnWindows else returns ())
     (\<lambda>_.
     andThen (externalVoid (verifyWebContentSettings env))
     (\<lambda>_.
     andThen (if language = Java then external (getJavaFolderPath env) else returns deployFsPath)
     (\<lambda>deployFsPath.
     andThen (externalVoid (verifyRuntimeIsCompatible env))
     (\<lambda>_.
     andThen (external (getSiteConfig env))
     (\<lambda>siteConfig.
     let isZipDeploy = (\<not> strictEquals (scmTypeValue siteConfig) (StringValue LocalGit)
                        \<and> \<not> strictEquals (ObjectValue siteConfig) (StringValue GitHub)) in
     andThen
       (if confirmDeployment \<and> isZipDeploy then
          andThen (perform (setTelemetry ''cancelStep'' ''confirmDestructiveDeployment''))
          (\<lambda>_.
          andThen (perform (logCall (ShowConfirmDeployWarning True)))
          (\<lambda>_.
          andThen (showWarningMessage (confirmDeployResponse env))
          (\<lambda>_. perform (setTelemetry ''cancelStep'' []))))
        else returns ())
     (\<lambda>_.
     returns \<lparr>d_node = node, d_language = language, d_runtime = runtime,
              d_deployFsPath = deployFsPath, d_workspaceFsPath = workspaceFsPath,
              d_siteConfig = siteConfig, d_isZipDeploy = isZipDeploy\<rparr>)))))))))))"

text \<open>Lines 112 to 127: the callback that \<^verbatim>\<open>node.runWithTemporaryDescription\<close> runs.\<close>

definition deploying :: "Deployment \<Rightarrow> ProjectLanguage \<Rightarrow> string \<Rightarrow> unit Async" where
  "deploying env language deployFsPath =
     tryFinally
       (andThen
          (if language = Java then
             andThen (perform (toOutput (AppendLine [StopFunctionApp])))
             (\<lambda>_.
             andThen (perform (logCall ClientStop))
             (\<lambda>_. externalVoid (clientStop env)))
           else returns ())
        (\<lambda>_.
        andThen (perform (logCall (AppserviceDeploy deployFsPath)))
        (\<lambda>_. externalVoid (appserviceDeploy env))))
       (if language = Java then
          andThen (perform (toOutput (AppendLine [StartFunctionApp])))
          (\<lambda>_.
          andThen (perform (logCall ClientStart))
          (\<lambda>_. externalVoid (clientStart env)))
        else returns ())"

text \<open>Lines 105 to 144: everything after \<^verbatim>\<open>runPreDeployTask\<close>.\<close>

definition afterPreDeployTask :: "Deployment \<Rightarrow> Deploying \<Rightarrow> unit Async" where
  "afterPreDeployTask env d =
     (let deployFsPath =
            (if strictEquals (scmTypeValue (d_siteConfig d)) (StringValue LocalGit)
             then d_workspaceFsPath d else d_deployFsPath d)
      in andThen (deploying env (d_language d) deployFsPath)
         (\<lambda>_.
         andThen (perform (toOutput (AppendLine [DeployComplete])))
         (\<lambda>_.
         andThen (perform (logCall ShowDeployCompleteMessage))
         (\<lambda>_. externalVoid (listHttpTriggerUrls env)))))"

definition deploy :: "Constants \<Rightarrow> Deployment \<Rightarrow> Target \<Rightarrow> FunctionAppId \<Rightarrow> unit Async" where
  "deploy k env target functionAppId =
     andThen (beforePreDeployTask env target functionAppId)
     (\<lambda>d.
     andThen (runPreDeployTask k env (d_deployFsPath d) (d_language d) (d_isZipDeploy d) (d_runtime d))
     (\<lambda>_. afterPreDeployTask env d))"

section \<open>The extension entry point\<close>

text \<open>
  What the host holds after registrations: the command handlers by id
  (\<^verbatim>\<open>registerCommand\<close>), the event handlers (\<^verbatim>\<open>registerEvent\<close>), the tree-data providers, the
  task providers by task type and the output channels. A handler is a named command
  function of the extension or a closure written in extension.ts, named by what it calls.
\<close>

datatype Handler = Function string | Closure string

record Host =
  commands :: "(string \<times> Handler) list"
  eventHandlers :: "string list"
  treeDataProviders :: "(string \<times> string) list"
  taskProviders :: "(string \<times> string) list"
  outputChannels :: "string list"

datatype AzureExtensionApiProvider = ApiProvider "string list"

definition createOutputChannel :: "string \<Rightarrow> Host \<Rightarrow> Host" where
  "createOutputChannel n h = h\<lparr>outputChannels := outputChannels h @ [n]\<rparr>"

definition registerTreeDataProvider :: "string \<Rightarrow> string \<Rightarrow> Host \<Rightarrow> Host" where
  "registerTreeDataProvider viewId provider h =
     h\<lparr>treeDataProviders := treeDataProviders h @ [(viewId, provider)]\<rparr>"

definition registerEvent :: "string \<Rightarrow> Host \<Rightarrow> Host" where
  "registerEvent eventId h = h\<lparr>eventHandlers := eventHandlers h @ [eventId]\<rparr>"

definition registerCommand :: "string \<Rightarrow> Handler \<Rightarrow> Host \<Rightarrow> Host" where
  "registerCommand commandId handler h = h\<lparr>commands := commands h @ [(commandId, handler)]\<rparr>"

definition registerTaskProvider :: "string \<Rightarrow> string \<Rightarrow> Host \<Rightarrow> Host" where
  "registerTaskProvider taskType provider h =
     h\<lparr>taskProviders := taskProviders h @ [(taskType, provider)]\<rparr>"

text \<open>
  The statements of the callback that \<^verbatim>\<open>activate\<close> hands to
  \<^verbatim>\<open>callWithTelemetryAndErrorHandling\<close> (extension.ts, lines 69 to 135) that can throw: the
  construction of the tree, and the registrations. The statements that only set
  properties or start a promise that is not awaited (\<^verbatim>\<open>validateFuncCoreToolsIsLatest\<close>, the
  first \<^verbatim>\<open>validateFunctionProjects\<close>, \<^verbatim>\<open>getTemplateProvider\<close>) cannot end the callback and
  are left out.
\<close>

datatype Statement =
    NewAzureTreeDataProvider
  | RegisterTreeDataProvider string string
  | RegisterEvent string
  | RegisterCommand string Handler
  | RegisterFuncHostTaskEvents
  | RegisterTaskProvider string string

text \<open>
  What a statement that does not throw leaves in the host. The tree object and the
  events of \<^verbatim>\<open>registerFuncHostTaskEvents\<close> (whose module is not among the sources) are not
  kept in the registries.
\<close>

fun execute :: "Statement \<Rightarrow> Host \<Rightarrow> Host" where
  "execute NewAzureTreeDataProvider h = h"
| "execute (RegisterTreeDataProvider viewId provider) h = registerTreeDataProvider viewId provider h"
| "execute (RegisterEvent eventId) h = registerEvent eventId h"
| "execute (RegisterCommand commandId handler) h = registerCommand commandId handler h"
| "execute RegisterFuncHostTaskEvents h = h"
| "execute (RegisterTaskProvider taskType provider) h = registerTaskProvider taskType provider h"

text \<open>
  Statements run in order; \<open>throwsAt\<close> gives the error with which the editor or a library
  throws at a statement, if it does (the editor throws, for one, when a command
  identifier is registered a second time). The first throw ends the run.
\<close>

fun runStatements :: "(Statement \<Rightarrow> Error option) \<Rightarrow> Statement list \<Rightarrow> Host \<Rightarrow> Error option \<times> Host" where
  "runStatements throwsAt [] h = (None, h)"
| "runStatements throwsAt (s # ss) h =
     (case throwsAt s of
        Some e \<Rightarrow> (Some e, h)
      | None \<Rightarrow> runStatements throwsAt ss (execute s h))"

text \<open>
  \<^verbatim>\<open>callWithTelemetryAndErrorHandling\<close> belongs to vscode-azureextensionui: it runs the
  callback and, when the callback throws, reports the error and returns without
  throwing it again (the callback of \<^verbatim>\<open>activate\<close> does not set \<^verbatim>\<open>rethrowError\<close>).
\<close>

definition callWithTelemetryAndErrorHandling :: "(Host \<Rightarrow> Error option \<times> Host) \<Rightarrow> Host \<Rightarrow> Host" where
  "callWithTelemetryAndErrorHandling callback h = snd (callback h)"

definition activationCallback :: "Statement list" where
  "activationCallback =
     [NewAzureTreeDataProvider,
      RegisterTreeDataProvider ''azureFunctionsExplorer'' ''AzureTreeDataProvider'',
      RegisterEvent ''azureFunctions.validateFunctionProjects'',
      RegisterCommand ''azureFunctions.selectSubscriptions'' (Closure ''vscode.commands.executeCommand azure-account.selectSubscriptions''),
      RegisterCommand ''azureFunctions.refresh'' (Closure ''ext.tree.refresh''),
      RegisterCommand ''azureFunctions.pickProcess'' (Function ''pickFuncProcess''),
      RegisterCommand ''azureFunctions.loadMore'' (Closure ''ext.tree.loadMore''),
      RegisterCommand ''azureFunctions.openInPortal'' (Function ''openInPortal''),
      RegisterCommand ''azureFunctions.createFunction'' (Closure ''createFunction''),
      RegisterCommand ''azureFunctions.createNewProject'' (Closure ''createNewProject''),
      RegisterCommand ''azureFunctions.initProjectForVSCode'' (Closure ''initProjectForVSCode''),
      RegisterCommand ''azureFunctions.createFunctionApp'' (Function ''createFunctionApp''),
      RegisterCommand ''azureFunctions.startFunctionApp'' (Function ''startFunctionApp''),
      RegisterCommand ''azureFunctions.stopFunctionApp'' (Function ''stopFunctionApp''),
      RegisterCommand ''azureFunctions.restartFunctionApp'' (Function ''restartFunctionApp''),
      RegisterCommand ''azureFunctions.deleteFunctionApp'' (Closure ''deleteNode ProductionSlotTreeItem.contextValue''),
      RegisterCommand ''azureFunctions.deploy'' (Function ''deploy''),
      RegisterCommand ''azureFunctions.configureDeploymentSource'' (Function ''configureDeploymentSource''),
      RegisterCommand ''azureFunctions.copyFunctionUrl'' (Function ''copyFunctionUrl''),
      RegisterCommand ''azureFunctions.startStreamingLogs'' (Function ''startStreamingLogs''),
      RegisterCommand ''azureFunctions.stopStreamingLogs'' (Function ''stopStreamingLogs''),
      RegisterCommand ''azureFunctions.deleteFunction'' (Closure ''deleteNode FunctionTreeItem.contextValue''),
      RegisterCommand ''azureFunctions.appSettings.add'' (Closure ''createChildNode AppSettingsTreeItem.contextValue''),
      RegisterCommand ''azureFunctions.appSettings.download'' (Function ''downloadAppSettings''),
      RegisterCommand ''azureFunctions.appSettings.upload'' (Function ''uploadAppSettings''),
      RegisterCommand ''azureFunctions.appSettings.edit'' (Function ''editAppSetting''),
      RegisterCommand ''azureFunctions.appSettings.rename'' (Function ''renameAppSetting''),
      RegisterCommand ''azureFunctions.appSettings.decrypt'' (Function ''decryptLocalSettings''),
      RegisterCommand ''azureFunctions.appSettings.encrypt'' (Function ''encryptLocalSettings''),
      RegisterCommand ''azureFunctions.appSettings.delete'' (Closure ''deleteNode AppSettingTreeItem.contextValue''),
      RegisterCommand ''azureFunctions.debugFunctionAppOnAzure'' (Function ''remoteDebugFunctionApp''),
      RegisterCommand ''azureFunctions.deleteProxy'' (Closure ''deleteNode ProxyTreeItem.contextValue''),
      RegisterCommand ''azureFunctions.installOrUpdateFuncCoreTools'' (Function ''installOrUpdateFuncCoreTools''),
      RegisterCommand ''azureFunctions.uninstallFuncCoreTools'' (Function ''uninstallFuncCoreTools''),
      RegisterCommand ''azureFunctions.redeploy'' (Function ''redeployDeployment''),
      RegisterCommand ''azureFunctions.viewDeploymentLogs'' (Function ''viewDeploymentLogs''),
      RegisterCommand ''azureFunctions.connectToGitHub'' (Function ''connectToGitHub''),
      RegisterCommand ''azureFunctions.disconnectRepo'' (Function ''disconnectRepo''),
      RegisterCommand ''azureFunctions.swapSlot'' (Function ''swapSlot''),
      RegisterCommand ''azureFunctions.createSlot'' (Closure ''createChildNode SlotsTreeItem.contextValue''),
      RegisterFuncHostTaskEvents,
      RegisterTaskProvider func ''FuncTaskProvider'']"

text \<open>
  \<^verbatim>\<open>activate\<close>: the output channel is created before the callback, the API provider is
  returned after \<^verbatim>\<open>callWithTelemetryAndErrorHandling\<close> has returned. The statements before
  the callback are taken to succeed.
\<close>

definition activate :: "(Statement \<Rightarrow> Error option) \<Rightarrow> Host \<Rightarrow> AzureExtensionApiProvider \<times> Host" where
  "activate throwsAt h =
     (let h = createOutputChannel ''Azure Functions'' h;
          h = callWithTelemetryAndErrorHandling (runStatements throwsAt activationCallback) h
      in (ApiProvider [], h))"

text \<open>The command identifiers that extension.ts passes to \<^verbatim>\<open>registerCommand\<close>, in its order.\<close>

definition commandIds :: "string list" where
  "commandIds =
     [''azureFunctions.selectSubscriptions'',
      ''azureFunctions.refresh'',
      ''azureFunctions.pickProcess'',
      ''azureFunctions.loadMore'',
      ''azureFunctions.openInPortal'',
      ''azureFunctions.createFunction'',
      ''azureFunctions.createNewProject'',
      ''azureFunctions.initProjectForVSCode'',
      ''azureFunctions.createFunctionApp'',
      ''azureFunctions.startFunctionApp'',
      ''azureFunctions.stopFunctionApp'',
      ''azureFunctions.restartFunctionApp'',
      ''azureFunctions.deleteFunctionApp'',
      ''azureFunctions.deploy'',
      ''azureFunctions.configureDeploymentSource'',
      ''azureFunctions.copyFunctionUrl'',
      ''azureFunctions.startStreamingLogs'',
      ''azureFunctions.stopStreamingLogs'',
      ''azureFunctions.deleteFunction'',
      ''azureFunctions.appSettings.add'',
      ''azureFunctions.appSettings.download'',
      ''azureFunctions.appSettings.upload'',
      ''azureFunctions.appSettings.edit'',
      ''azureFunctions.appSettings.rename'',
      ''azureFunctions.appSettings.decrypt'',
      ''azureFunctions.appSettings.encrypt'',
      ''azureFunctions.appSettings.delete'',
      ''azureFunctions.debugFunctionAppOnAzure'',
      ''azureFunctions.deleteProxy'',
      ''azureFunctions.installOrUpdateFuncCoreTools'',
      ''azureFunctions.uninstallFuncCoreTools'',
      ''azureFunctions.redeploy'',
      ''azureFunctions.viewDeploymentLogs'',
      ''azureFunctions.connectToGitHub'',
      ''azureFunctions.disconnectRepo'',
      ''azureFunctions.swapSlot'',
      ''azureFunctions.createSlot'']"

section \<open>Events that decide a wait\<close>

text \<open>
  The events that settle the wait of \<^verbatim>\<open>startFuncTask\<close>: a process start of a func host
  task, or a process end of any task with a nonzero exit code.
\<close>

definition decisive :: "(Task \<Rightarrow> bool) \<Rightarrow> TaskProcessEvent \<Rightarrow> bool" where
  "decisive isHost e =
     (case e of
        TaskProcessStart t processId \<Rightarrow> isHost (task t)
      | TaskProcessEnd t exitCode \<Rightarrow> exitCode \<noteq> 0)"

text \<open>Every event of \<open>pre\<close> fires before \<open>d\<close> milliseconds have passed and decides nothing.\<close>

definition quietBefore :: "(Task \<Rightarrow> bool) \<Rightarrow> nat \<Rightarrow> (nat \<times> TaskProcessEvent) list \<Rightarrow> bool" where
  "quietBefore isHost d pre = list_all (\<lambda>te. fst te < d \<and> \<not> decisive isHost (snd te)) pre"

text \<open>The event that settles the wait of \<^verbatim>\<open>runPreDeployTask\<close>: a process end of the task itself.\<close>

definition endOf :: "TaskObject \<Rightarrow> TaskProcessEvent \<Rightarrow> bool" where
  "endOf p e =
     (case e of
        TaskProcessStart t processId \<Rightarrow> False
      | TaskProcessEnd t exitCode \<Rightarrow> sameObject t p)"

section \<open>The polls of getInnermostWindowsPid\<close>

text \<open>
  \<open>pollTime g start i\<close> is \<^verbatim>\<open>Date.now()\<close> at the loop test before call \<open>i\<close> of
  \<^verbatim>\<open>getProcessTree\<close>, when every earlier call was followed by \<^verbatim>\<open>delay(500)\<close>.
\<close>

fun pollTime :: "(nat \<Rightarrow> Poll) \<Rightarrow> nat \<Rightarrow> nat \<Rightarrow> nat" where
  "pollTime g start 0 = start"
| "pollTime g start (Suc i) = pollTime g start i + fetchMillis (g i) + 500 + delayOverrun (g i)"

text \<open>The name of the first-child leaf of a tree contains \<^verbatim>\<open>func\<close>, whatever the case.\<close>

definition isFuncLeaf :: "IProcessTreeNode \<Rightarrow> bool" where
  "isFuncLeaf tree = includes_str (toLowerCase (node_name (firstLeaf tree))) ''func''"

text \<open>Call \<open>i\<close> yields a tree whose first-child leaf is not the func process.\<close>

definition notYetFunc :: "(nat \<Rightarrow> Poll) \<Rightarrow> nat \<Rightarrow> bool" where
  "notYetFunc g i = (case psTree (g i) of None \<Rightarrow> False | Some tree \<Rightarrow> \<not> isFuncLeaf tree)"

section \<open>The tasks of one workspace folder\<close>









section \<open>Properties of asynchronous steps\<close>

text \<open>
  \<open>addsOnly S m\<close>: whatever \<open>m\<close> does, the calls it records are appended to those already
  made and lie in \<open>S\<close>. \<open>returnsOnly Q m\<close>: every value that \<open>m\<close> returns satisfies \<open>Q\<close>.
  \<open>uploadPath\<close> is the folder that deploy hands to \<^verbatim>\<open>appservice.deploy\<close>: the workspace
  folder for LocalGit, else the deploy path.
\<close>

definition addsOnly :: "Call set \<Rightarrow> 'a Async \<Rightarrow> bool" where
  "addsOnly S m = (\<forall>w. \<exists>cs. calls (snd (m w)) = calls w @ cs \<and> set cs \<subseteq> S)"

definition uploadPath :: "Deploying \<Rightarrow> string" where
  "uploadPath d =
     (if scmType (d_siteConfig d) = Some LocalGit then d_workspaceFsPath d else d_deployFsPath d)"

definition returnsOnly :: "('a \<Rightarrow> bool) \<Rightarrow> 'a Async \<Rightarrow> bool" where
  "returnsOnly Q m = (\<forall>w x w'. m w = (Returned x, w') \<longrightarrow> Q x)"


section \<open>Sample inputs\<close>

text \<open>Concrete values at which the theorems below are instantiated.\<close>

definition sampleConstants :: Constants where
  "sampleConstants =
     \<lparr>hostStartCommand = ''host start'', extInstallCommand = ''extensions install'',
      hostStartTaskName = ''func: host start'', extInstallTaskName = ''func: extensions install'',
      funcWatchProblemMatcher = ''$func-watch'', publishTaskId = ''publish'', funcPackId = ''funcPack''\<rparr>"

definition sampleFolder :: WorkspaceFolder where
  "sampleFolder = \<lparr>fsPath = ''/w/app''\<rparr>"

definition sampleEditor :: "bool \<Rightarrow> ProjectLanguage option \<Rightarrow> Editor" where
  "sampleEditor isProject lang =
     \<lparr>workspaceFolders = Some [sampleFolder],
      isFunctionProject = (\<lambda>p. isProject),
      projectLanguageSetting = (\<lambda>p. lang),
      pythonVenvSetting = (\<lambda>p. None),
      nodeDebugPortSetting = (\<lambda>p. Some 5858),
      getProjectLanguage = (\<lambda>p. lang),
      platform = Linux,
      pyExtension = None,
      joinCommands = (\<lambda>pf cs. join '' && '' cs),
      pathJoin = (\<lambda>ps. join ''/'' ps)\<rparr>"





definition samplePs :: "string \<Rightarrow> PS" where
  "samplePs p = \<lparr>PID = p, PPID = ''4711'', COMMAND = ''func''\<rparr>"

definition samplePsTree :: "nat option \<Rightarrow> Error option \<times> PS list" where
  "samplePsTree n =
     (if n = Some 4711 then (None, [samplePs ''4712'', samplePs ''4720'']) else (None, []))"

definition publishTask :: TaskObject where
  "publishTask =
     \<lparr>objectId = 1,
      task = newTask \<lparr>td_type = ''process'', td_command = ''dotnet'', td_port = None\<rparr>
               sampleFolder ''publish'' ''Workspace''
               (ProcessExecution ''dotnet'' [''publish''] None) []\<rparr>"

definition buildTask :: TaskObject where
  "buildTask =
     \<lparr>objectId = 2,
      task = newTask \<lparr>td_type = ''process'', td_command = ''dotnet'', td_port = None\<rparr>
               sampleFolder ''build'' ''Workspace''
               (ProcessExecution ''dotnet'' [''build''] None) []\<rparr>"

definition hostTask :: TaskObject where
  "hostTask =
     \<lparr>objectId = 3,
      task = newTask \<lparr>td_type = ''func'', td_command = ''host start'', td_port = None\<rparr>
               sampleFolder ''host start'' ''func''
               (ShellExecution ''func host start'' None) [''$func-watch'']\<rparr>"

definition isHostTask :: "Task \<Rightarrow> bool" where
  "isHostTask t = (td_type (task_definition t) = ''func'' \<and> td_command (task_definition t) = ''host start'')"

text \<open>
  A debug session on a Unix system with the pickProcessTimeout setting at \<open>secs\<close>: the
  editor offers the build task and the host task, and \<open>samplePsTree\<close> answers ps-tree.
\<close>

definition samplePickProcess :: "int \<Rightarrow> (nat \<times> TaskProcessEvent) list \<Rightarrow> PickProcess" where
  "samplePickProcess secs events =
     \<lparr>validateFuncCoreToolsInstalled = True,
      fetchTasks = [buildTask, hostTask],
      isFuncHostTask = isHostTask,
      pickProcessTimeout = Some secs,
      executeTask = None,
      taskEvents = events,
      isWindows = False,
      windowsProcessTree = None,
      dateNow = 0,
      unixPsTree = samplePsTree\<rparr>"

definition sampleNode :: SlotTreeItem where
  "sampleNode = \<lparr>fullId = ''/subscriptions/1/sites/app'', isLinuxPreview = False\<rparr>"

definition emptyWorld :: World where
  "emptyWorld = \<lparr>calls = [], outputChannel = [], telemetryProperties = []\<rparr>"

text \<open>
  A deployment of the folder \<^verbatim>\<open>/w/app\<close> to \<open>sampleNode\<close> in which every external call
  succeeds and the user confirms; the source-control type, the \<^verbatim>\<open>preDeployTask\<close> setting,
  the language, the tasks, the task events and the outcome of the upload vary.
\<close>

definition sampleDeployment ::
  "ScmType option \<Rightarrow> string option \<Rightarrow> ProjectLanguage \<Rightarrow> TaskObject list
   \<Rightarrow> (nat \<times> TaskProcessEvent) list \<Rightarrow> Error option \<Rightarrow> Deployment" where
  "sampleDeployment scm setting lang ts events upload =
     \<lparr>appendDeploySubpathSetting = (\<lambda>p. p),
      getDeployFsPath = Inr ''/w/app'',
      ensureFolderIsOpen = Inr ''/w/app'',
      showTreeItemPicker = Inr sampleNode,
      findTreeItem = (\<lambda>i. None),
      treeItemsCreated = [],
      projectLanguage = Inr lang,
      projectRuntime = Inr v2,
      verifyWebContentSettings = None,
      getJavaFolderPath = Inr ''/w/app/target/azure-functions/app'',
      verifyRuntimeIsCompatible = None,
      getSiteConfig = Inr \<lparr>scmType = scm\<rparr>,
      confirmDeployResponse = ChoseDeploy,
      preDeployTaskSetting = setting,
      tasks = ts,
      isPathEqual = (\<lambda>a b. a = b),
      isSubpath = (\<lambda>a b. False),
      executePreDeployTask = None,
      taskProcessEvents = events,
      clientStop = None,
      appserviceDeploy = upload,
      clientStart = None,
      listHttpTriggerUrls = None\<rparr>"

text \<open>
  A process tree of a PowerShell task: at the first call the shell has not started the
  host yet, from the second call on it has.
\<close>

definition shellOnly :: IProcessTreeNode where
  "shellOnly = IProcessTreeNode 4711 ''powershell.exe'' []"

definition shellWithFunc :: IProcessTreeNode where
  "shellWithFunc =
     IProcessTreeNode 4711 ''powershell.exe''
       [IProcessTreeNode 4720 ''node.exe'' [IProcessTreeNode 4733 ''Func.exe'' []],
        IProcessTreeNode 4721 ''conhost.exe'' []]"

definition sampleProcessTree :: "nat option \<Rightarrow> nat \<Rightarrow> Poll" where
  "sampleProcessTree rootPid i =
     \<lparr>fetchMillis = 20,
      psTree = (if rootPid = Some 4711 then (if i = 0 then Some shellOnly else Some shellWithFunc)
                else None),
      delayOverrun = 3\<rparr>"

text \<open>An editor in which the command \<^verbatim>\<open>azureFunctions.deploy\<close> is already registered.\<close>

definition deployAlreadyExists :: "Statement \<Rightarrow> Error option" where
  "deployAlreadyExists s =
     (if s = RegisterCommand ''azureFunctions.deploy'' (Function ''deploy'')
      then Some (ExternalError ''command azureFunctions.deploy already exists'')
      else None)"

definition emptyHost :: Host where
  "emptyHost =
     \<lparr>commands = [], eventHandlers = [], treeDataProviders = [], taskProviders = [],
      outputChannels = []\<rparr>"

text \<open>What the first part of deploy yields on a sample deployment that the user confirms.\<close>

definition sampleDeploying :: "ScmType option \<Rightarrow> ProjectLanguage \<Rightarrow> string \<Rightarrow> Deploying" where
  "sampleDeploying scm lang path =
     \<lparr>d_node = sampleNode, d_language = lang, d_runtime = v2, d_deployFsPath = path,
      d_workspaceFsPath = ''/w/app'', d_siteConfig = \<lparr>scmType = scm\<rparr>,
      d_isZipDeploy = (scm \<noteq> Some LocalGit)\<rparr>"

definition confirmedWorld :: World where
  "confirmedWorld =
     \<lparr>calls = [ShowConfirmDeployWarning True], outputChannel = [],
      telemetryProperties = [(''cancelStep'', ''confirmDestructiveDeployment''), (''cancelStep'', [])]\<rparr>"

section \<open>Evaluation lemmas\<close>

lemma toString_5858: "toString 5858 = ''5858''"
  by (simp add: toString.simps digit_def)

lemma parseInt_4711: "parseInt ''4711'' = Some 4711"
  by (simp add: parseInt_def isDigit_def digitsValue_def)

section \<open>getInnermostUnixPid\<close>

text \<open>
  C3. When ps-tree passes \<open>(error, children)\<close> to its callback for the parsed pid:
  without an error and with descendants the function returns the \<^verbatim>\<open>PID\<close> of the last
  descendant; without an error and without descendants it returns its argument
  unchanged; with an error it rejects with that error, and it rejects in no other case.
\<close>

theorem getInnermostUnixPid_result:
  "ps (parseInt pid) = (error, children) \<Longrightarrow>
   (error = None \<and> children \<noteq> [] \<longrightarrow>
      getInnermostUnixPid ps pid = Returned (PID (last children))) \<and>
   (error = None \<and> children = [] \<longrightarrow> getInnermostUnixPid ps pid = Returned pid) \<and>
   (\<forall>e. error = Some e \<longrightarrow> getInnermostUnixPid ps pid = Threw e) \<and>
   ((\<exists>e. getInnermostUnixPid ps pid = Threw e) \<longleftrightarrow> error \<noteq> None)"
  by (cases error) (auto simp: getInnermostUnixPid_def pop_def)

theorem getInnermostUnixPid_result_witness:
  "samplePsTree (parseInt ''4711'') = (None, [samplePs ''4712'', samplePs ''4720''])
   \<and> getInnermostUnixPid samplePsTree ''4711'' = Returned ''4720''"
proof -
  have h: "samplePsTree (parseInt ''4711'') = (None, [samplePs ''4712'', samplePs ''4720''])"
    by (simp add: parseInt_4711 samplePsTree_def)
  show ?thesis
    using h getInnermostUnixPid_result
      [of samplePsTree "''4711''" None "[samplePs ''4712'', samplePs ''4720'']"]
    by (simp add: samplePs_def)
qed

section \<open>The node debug port\<close>

text \<open>
  C10. The attach configuration of \<^verbatim>\<open>JavaScriptProjectCreator.getLaunchJson\<close> uses port
  5858; \<^verbatim>\<open>funcNodeDebugArgs\<close> is \<^verbatim>\<open>--inspect=\<close> followed by that port; and for a folder
  whose language is JavaScript \<^verbatim>\<open>getHostStartTask\<close> produces a task whose environment
  sets \<^verbatim>\<open>funcNodeDebugEnvVar\<close> to \<^verbatim>\<open>--inspect=\<close> followed by the same port.
\<close>

theorem node_debug_port_agrees:
  "projectLanguageSetting ed (fsPath folder) = Some JavaScript \<Longrightarrow>
   \<exists>cfg t. lj_configurations (getLaunchJson k) = [cfg] \<and> dc_port cfg = 5858
     \<and> funcNodeDebugArgs = ''--inspect='' @ toString (dc_port cfg)
     \<and> getHostStartTask k ed folder = Inr (Some t)
     \<and> task_execution t =
         ShellExecution ''func host start''
           (Some [(funcNodeDebugEnvVar, ''--inspect='' @ toString (dc_port cfg))])"
  by (simp add: getLaunchJson_def funcNodeDebugArgs_def funcNodeDebugEnvVar_def toString_5858
      getHostStartTask_def orDefault_def newTask_def)

theorem node_debug_port_agrees_witness:
  "projectLanguageSetting (sampleEditor True (Some JavaScript)) (fsPath sampleFolder) = Some JavaScript
   \<and> (\<exists>cfg t. lj_configurations (getLaunchJson sampleConstants) = [cfg] \<and> dc_port cfg = 5858
     \<and> funcNodeDebugArgs = ''--inspect='' @ toString (dc_port cfg)
     \<and> getHostStartTask sampleConstants (sampleEditor True (Some JavaScript)) sampleFolder
         = Inr (Some t)
     \<and> task_execution t =
         ShellExecution ''func host start''
           (Some [(funcNodeDebugEnvVar, ''--inspect='' @ toString (dc_port cfg))]))"
proof -
  have h: "projectLanguageSetting (sampleEditor True (Some JavaScript)) (fsPath sampleFolder)
             = Some JavaScript"
    by (simp add: sampleEditor_def)
  show ?thesis using h node_debug_port_agrees [OF h, of sampleConstants] by blast
qed

section \<open>startFuncTask\<close>

lemma toString_4711: "toString 4711 = ''4711''"
  by (simp add: toString.simps digit_def)

lemma eventLoop_timer:
  "eventLoop (Some d) events =
     map (\<lambda>te. TaskEvent (snd te)) (takeWhile (\<lambda>te. fst te < d) events)
     @ TimerFired # map (\<lambda>te. TaskEvent (snd te)) (dropWhile (\<lambda>te. fst te < d) events)"
  by (induction events) (auto simp: not_less)

lemma startFuncTask_callback_settled:
  "promise w \<noteq> Pending \<Longrightarrow> promise (startFuncTask_callback isHost err w cb) = promise w"
  by (auto simp: startFuncTask_callback_def resolve_def reject_def
      split: Callback.splits TaskProcessEvent.splits)

lemma startFuncTask_settled_foldl:
  "promise w \<noteq> Pending \<Longrightarrow> promise (foldl (startFuncTask_callback isHost err) w cbs) = promise w"
  by (induction cbs arbitrary: w) (simp_all add: startFuncTask_callback_settled)

lemma startFuncTask_callback_idle:
  "\<not> decisive isHost e \<Longrightarrow> startFuncTask_callback isHost err w (TaskEvent e) = w"
  by (auto simp: startFuncTask_callback_def decisive_def split: TaskProcessEvent.splits)

lemma startFuncTask_idle_foldl:
  "\<forall>te \<in> set pre. \<not> decisive isHost (snd te) \<Longrightarrow>
   foldl (startFuncTask_callback isHost err) w (map (\<lambda>te. TaskEvent (snd te)) pre) = w"
  by (induction pre arbitrary: w) (simp_all add: startFuncTask_callback_idle)

lemma takeWhile_split:
  "\<forall>x \<in> set pre. P x \<Longrightarrow> P y \<Longrightarrow> takeWhile P (pre @ y # post) = pre @ y # takeWhile P post"
  by (induction pre) auto

lemma startFuncTask_first:
  assumes "foldl (startFuncTask_callback isHost err) w0 quiet = w0"
    and "promise (startFuncTask_callback isHost err w0 cb) = v" and "v \<noteq> Pending"
  shows "promise (foldl (startFuncTask_callback isHost err) w0 (quiet @ cb # rest)) = v"
  using assms by (simp add: startFuncTask_settled_foldl)

lemma quietBefore_idle:
  "quietBefore isHost d pre \<Longrightarrow>
   foldl (startFuncTask_callback isHost err) w (map (\<lambda>te. TaskEvent (snd te)) pre) = w"
  by (rule startFuncTask_idle_foldl) (simp add: quietBefore_def list_all_iff)

lemma waitForStartPromise_first:
  assumes "events = pre @ (t, e) # post" and "t < setTimeoutDelay (secs * 1000)"
    and "quietBefore isHost (setTimeoutDelay (secs * 1000)) pre"
    and "promise (startFuncTask_callback isHost err
            \<lparr>promise = Pending, listener = True, errorListener = True\<rparr> (TaskEvent e)) = v"
    and "v \<noteq> Pending"
  shows "waitForStartPromise isHost secs err events = v"
proof -
  let ?d = "setTimeoutDelay (secs * 1000)"
  let ?ev = "\<lambda>te :: nat \<times> TaskProcessEvent. TaskEvent (snd te)"
  have "\<forall>te \<in> set pre. fst te < ?d"
    using assms(3) by (simp add: quietBefore_def list_all_iff)
  then have tw: "takeWhile (\<lambda>te. fst te < ?d) events = pre @ (t, e) # takeWhile (\<lambda>te. fst te < ?d) post"
    using assms(1,2) by (simp add: takeWhile_split)
  obtain rest where loop: "eventLoop (Some ?d) events = map ?ev pre @ TaskEvent e # rest"
    by (simp add: eventLoop_timer tw)
  show ?thesis
    unfolding waitForStartPromise_def loop
    by (rule startFuncTask_first [OF quietBefore_idle [OF assms(3)] assms(4) assms(5)])
qed

lemma waitForStartPromise_timeout:
  assumes "quietBefore isHost (setTimeoutDelay (secs * 1000))
             (takeWhile (\<lambda>te. fst te < setTimeoutDelay (secs * 1000)) events)"
  shows "waitForStartPromise isHost secs err events = Rejected err"
proof -
  have hit: "promise (startFuncTask_callback isHost err
               \<lparr>promise = Pending, listener = True, errorListener = True\<rparr> TimerFired) = Rejected err"
    by (simp add: startFuncTask_callback_def reject_def)
  show ?thesis
    unfolding waitForStartPromise_def eventLoop_timer
    by (rule startFuncTask_first [OF quietBefore_idle [OF assms] hit]) simp
qed

lemma startFuncTask_outcomes:
  "(events = pre @ (t, TaskProcessStart host processId) # post \<and> isHost (task host)
      \<and> t < setTimeoutDelay (secs * 1000) \<and> quietBefore isHost (setTimeoutDelay (secs * 1000)) pre
    \<longrightarrow> startFuncTask isHost None events secs err = Returned (toString processId)) \<and>
   (events = pre @ (t, TaskProcessEnd failed exitCode) # post \<and> exitCode \<noteq> 0
      \<and> t < setTimeoutDelay (secs * 1000) \<and> quietBefore isHost (setTimeoutDelay (secs * 1000)) pre
    \<longrightarrow> startFuncTask isHost None events secs err
          = Threw (TaskFailedToStartDebugging (task_name (task failed)) exitCode)) \<and>
   (quietBefore isHost (setTimeoutDelay (secs * 1000))
      (takeWhile (\<lambda>te. fst te < setTimeoutDelay (secs * 1000)) events)
    \<longrightarrow> startFuncTask isHost None events secs err = Threw err)"
proof (intro conjI impI)
  let ?w0 = "\<lparr>promise = Pending, listener = True, errorListener = True\<rparr> :: string Waiting"
  {
    assume a: "events = pre @ (t, TaskProcessStart host processId) # post \<and> isHost (task host)
      \<and> t < setTimeoutDelay (secs * 1000) \<and> quietBefore isHost (setTimeoutDelay (secs * 1000)) pre"
    have hit: "promise (startFuncTask_callback isHost err ?w0
                 (TaskEvent (TaskProcessStart host processId))) = Resolved (toString processId)"
      using a by (simp add: startFuncTask_callback_def resolve_def)
    from a have e: "events = pre @ (t, TaskProcessStart host processId) # post"
      and t: "t < setTimeoutDelay (secs * 1000)"
      and q: "quietBefore isHost (setTimeoutDelay (secs * 1000)) pre" by simp_all
    have "waitForStartPromise isHost secs err events = Resolved (toString processId)"
      by (rule waitForStartPromise_first [OF e t q hit]) simp
    then show "startFuncTask isHost None events secs err = Returned (toString processId)"
      by (simp add: startFuncTask_def await_def)
  }
  {
    assume a: "events = pre @ (t, TaskProcessEnd failed exitCode) # post \<and> exitCode \<noteq> 0
      \<and> t < setTimeoutDelay (secs * 1000) \<and> quietBefore isHost (setTimeoutDelay (secs * 1000)) pre"
    have hit: "promise (startFuncTask_callback isHost err ?w0
                 (TaskEvent (TaskProcessEnd failed exitCode)))
                 = Rejected (TaskFailedToStartDebugging (task_name (task failed)) exitCode)"
      using a by (simp add: startFuncTask_callback_def reject_def)
    from a have e: "events = pre @ (t, TaskProcessEnd failed exitCode) # post"
      and t: "t < setTimeoutDelay (secs * 1000)"
      and q: "quietBefore isHost (setTimeoutDelay (secs * 1000)) pre" by simp_all
    have "waitForStartPromise isHost secs err events
            = Rejected (TaskFailedToStartDebugging (task_name (task failed)) exitCode)"
      by (rule waitForStartPromise_first [OF e t q hit]) simp
    then show "startFuncTask isHost None events secs err
            = Threw (TaskFailedToStartDebugging (task_name (task failed)) exitCode)"
      by (simp add: startFuncTask_def await_def)
  }
  {
    assume "quietBefore isHost (setTimeoutDelay (secs * 1000))
              (takeWhile (\<lambda>te. fst te < setTimeoutDelay (secs * 1000)) events)"
    then have "waitForStartPromise isHost secs err events = Rejected err"
      by (rule waitForStartPromise_timeout)
    then show "startFuncTask isHost None events secs err = Threw err"
      by (simp add: startFuncTask_def await_def)
  }
qed

lemma pickFuncProcess_waits:
  assumes "validateFuncCoreToolsInstalled sys"
    and "find (\<lambda>t. isFuncHostTask sys (task t)) (fetchTasks sys) = Some funcTask"
    and "pickProcessTimeout sys = Some secs"
  shows "pickFuncProcess sys =
           (case startFuncTask (isFuncHostTask sys) (executeTask sys) (taskEvents sys) secs
                   (FailedToFindFuncHost secs) of
              Returned processId \<Rightarrow>
                (if isWindows sys
                 then getInnermostWindowsPid (windowsProcessTree sys) (dateNow sys) processId secs
                        (FailedToFindFuncHost secs)
                 else getInnermostUnixPid (unixPsTree sys) processId)
            | Threw e \<Rightarrow> Threw e
            | NeverSettles \<Rightarrow> NeverSettles)"
  using assms by (simp add: pickFuncProcess_def Let_def)

text \<open>
  The wait of \<^verbatim>\<open>startFuncTask\<close> in general: a race between the task events and a
  timer, when \<^verbatim>\<open>executeTask\<close> does not reject. The timer's delay is
  \<^verbatim>\<open>timeoutInSeconds * 1000\<close> milliseconds when that number lies between 1 and 2147483647,
  and 1 millisecond otherwise. If the first deciding event fires before the delay has
  passed and is a process start of a func host task, \<^verbatim>\<open>startFuncTask\<close> returns that process
  id as a string; if it is a process end of any task with a nonzero exit code,
  \<^verbatim>\<open>startFuncTask\<close> throws the task-failure error; if no deciding event fires before the
  delay has passed, it throws the timeout error. \<^verbatim>\<open>pickFuncProcess\<close>, once its checks have
  passed, waits in this way with the \<^verbatim>\<open>pickProcessTimeout\<close> setting: in the first case it
  goes on to look for the innermost pid of that process id, in the second it throws the
  task-failure error, in the third the failed-to-find-host error for that setting.
\<close>

theorem startFuncTask_race:
  fixes secs :: int
  defines "d \<equiv> setTimeoutDelay (secs * 1000)"
  shows
  "(events = pre @ (t, TaskProcessStart host processId) # post \<and> isHost (task host)
      \<and> t < d \<and> quietBefore isHost d pre
    \<longrightarrow> startFuncTask isHost None events secs err = Returned (toString processId)) \<and>
   (events = pre @ (t, TaskProcessEnd failed exitCode) # post \<and> exitCode \<noteq> 0
      \<and> t < d \<and> quietBefore isHost d pre
    \<longrightarrow> startFuncTask isHost None events secs err
          = Threw (TaskFailedToStartDebugging (task_name (task failed)) exitCode)) \<and>
   (quietBefore isHost d (takeWhile (\<lambda>te. fst te < d) events)
    \<longrightarrow> startFuncTask isHost None events secs err = Threw err) \<and>
   d = (if 1 \<le> secs * 1000 \<and> secs * 1000 \<le> 2147483647 then nat (secs * 1000) else 1) \<and>
   (validateFuncCoreToolsInstalled sys
      \<and> find (\<lambda>t. isFuncHostTask sys (task t)) (fetchTasks sys) = Some funcTask
      \<and> pickProcessTimeout sys = Some secs \<and> executeTask sys = None
    \<longrightarrow> (taskEvents sys = pre @ (t, TaskProcessStart host processId) # post
           \<and> isFuncHostTask sys (task host) \<and> t < d \<and> quietBefore (isFuncHostTask sys) d pre
         \<longrightarrow> pickFuncProcess sys =
               (if isWindows sys
                then getInnermostWindowsPid (windowsProcessTree sys) (dateNow sys)
                       (toString processId) secs (FailedToFindFuncHost secs)
                else getInnermostUnixPid (unixPsTree sys) (toString processId)))
        \<and> (taskEvents sys = pre @ (t, TaskProcessEnd failed exitCode) # post \<and> exitCode \<noteq> 0
           \<and> t < d \<and> quietBefore (isFuncHostTask sys) d pre
         \<longrightarrow> pickFuncProcess sys
               = Threw (TaskFailedToStartDebugging (task_name (task failed)) exitCode))
        \<and> (quietBefore (isFuncHostTask sys) d (takeWhile (\<lambda>te. fst te < d) (taskEvents sys))
         \<longrightarrow> pickFuncProcess sys = Threw (FailedToFindFuncHost secs)))"
proof -
  note general = startFuncTask_outcomes [where events = events and pre = pre and t = t
      and host = host and processId = processId and post = post and isHost = isHost
      and secs = secs and failed = failed and exitCode = exitCode and err = err]
  have delay: "d = (if 1 \<le> secs * 1000 \<and> secs * 1000 \<le> 2147483647 then nat (secs * 1000) else 1)"
    by (simp add: d_def setTimeoutDelay_def)
  have pick: "validateFuncCoreToolsInstalled sys
      \<and> find (\<lambda>t. isFuncHostTask sys (task t)) (fetchTasks sys) = Some funcTask
      \<and> pickProcessTimeout sys = Some secs \<and> executeTask sys = None
    \<longrightarrow> (taskEvents sys = pre @ (t, TaskProcessStart host processId) # post
           \<and> isFuncHostTask sys (task host) \<and> t < d \<and> quietBefore (isFuncHostTask sys) d pre
         \<longrightarrow> pickFuncProcess sys =
               (if isWindows sys
                then getInnermostWindowsPid (windowsProcessTree sys) (dateNow sys)
                       (toString processId) secs (FailedToFindFuncHost secs)
                else getInnermostUnixPid (unixPsTree sys) (toString processId)))
        \<and> (taskEvents sys = pre @ (t, TaskProcessEnd failed exitCode) # post \<and> exitCode \<noteq> 0
           \<and> t < d \<and> quietBefore (isFuncHostTask sys) d pre
         \<longrightarrow> pickFuncProcess sys
               = Threw (TaskFailedToStartDebugging (task_name (task failed)) exitCode))
        \<and> (quietBefore (isFuncHostTask sys) d (takeWhile (\<lambda>te. fst te < d) (taskEvents sys))
         \<longrightarrow> pickFuncProcess sys = Threw (FailedToFindFuncHost secs))"
  proof (intro impI)
    assume a: "validateFuncCoreToolsInstalled sys
      \<and> find (\<lambda>t. isFuncHostTask sys (task t)) (fetchTasks sys) = Some funcTask
      \<and> pickProcessTimeout sys = Some secs \<and> executeTask sys = None"
    then have w: "pickFuncProcess sys =
           (case startFuncTask (isFuncHostTask sys) None (taskEvents sys) secs
                   (FailedToFindFuncHost secs) of
              Returned processId \<Rightarrow>
                (if isWindows sys
                 then getInnermostWindowsPid (windowsProcessTree sys) (dateNow sys) processId secs
                        (FailedToFindFuncHost secs)
                 else getInnermostUnixPid (unixPsTree sys) processId)
            | Threw e \<Rightarrow> Threw e
            | NeverSettles \<Rightarrow> NeverSettles)"
      using pickFuncProcess_waits [of sys funcTask secs] by simp
    note o = startFuncTask_outcomes [where events = "taskEvents sys" and pre = pre and t = t
        and host = host and processId = processId and post = post
        and isHost = "isFuncHostTask sys" and secs = secs and failed = failed
        and exitCode = exitCode and err = "FailedToFindFuncHost secs"]
    show "(taskEvents sys = pre @ (t, TaskProcessStart host processId) # post
           \<and> isFuncHostTask sys (task host) \<and> t < d \<and> quietBefore (isFuncHostTask sys) d pre
         \<longrightarrow> pickFuncProcess sys =
               (if isWindows sys
                then getInnermostWindowsPid (windowsProcessTree sys) (dateNow sys)
                       (toString processId) secs (FailedToFindFuncHost secs)
                else getInnermostUnixPid (unixPsTree sys) (toString processId)))
        \<and> (taskEvents sys = pre @ (t, TaskProcessEnd failed exitCode) # post \<and> exitCode \<noteq> 0
           \<and> t < d \<and> quietBefore (isFuncHostTask sys) d pre
         \<longrightarrow> pickFuncProcess sys
               = Threw (TaskFailedToStartDebugging (task_name (task failed)) exitCode))
        \<and> (quietBefore (isFuncHostTask sys) d (takeWhile (\<lambda>te. fst te < d) (taskEvents sys))
         \<longrightarrow> pickFuncProcess sys = Threw (FailedToFindFuncHost secs))"
      using o unfolding d_def w by auto
  qed
  show ?thesis
    using general delay pick unfolding d_def by blast
qed

theorem startFuncTask_race_witness:
  "startFuncTask isHostTask None
     [(300, TaskProcessEnd buildTask 0), (2500, TaskProcessStart hostTask 4711)] 60
     (FailedToFindFuncHost 60) = Returned ''4711''
   \<and> startFuncTask isHostTask None
     [(300, TaskProcessEnd buildTask 1), (2500, TaskProcessStart hostTask 4711)] 60
     (FailedToFindFuncHost 60) = Threw (TaskFailedToStartDebugging ''build'' 1)
   \<and> startFuncTask isHostTask None
     [(300, TaskProcessEnd buildTask 0), (61000, TaskProcessStart hostTask 4711)] 60
     (FailedToFindFuncHost 60) = Threw (FailedToFindFuncHost 60)
   \<and> pickFuncProcess (samplePickProcess 60
        [(300, TaskProcessEnd buildTask 0), (2500, TaskProcessStart hostTask 4711)])
       = Returned ''4720''
   \<and> pickFuncProcess (samplePickProcess 60
        [(300, TaskProcessEnd buildTask 1), (2500, TaskProcessStart hostTask 4711)])
       = Threw (TaskFailedToStartDebugging ''build'' 1)
   \<and> pickFuncProcess (samplePickProcess 60
        [(300, TaskProcessEnd buildTask 0), (61000, TaskProcessStart hostTask 4711)])
       = Threw (FailedToFindFuncHost 60)"
proof -
  let ?ok = "[(300, TaskProcessEnd buildTask 0), (2500, TaskProcessStart hostTask 4711)]"
  let ?bad = "[(300, TaskProcessEnd buildTask 1), (2500, TaskProcessStart hostTask 4711)]"
  let ?late = "[(300, TaskProcessEnd buildTask 0), (61000, TaskProcessStart hostTask 4711)]"
  have d: "setTimeoutDelay (60 * 1000) = 60000"
    by (simp add: setTimeoutDelay_def)
  have quiet: "quietBefore isHostTask 60000 [(300, TaskProcessEnd buildTask 0)]"
    "quietBefore isHostTask 60000 []"
    by (simp_all add: quietBefore_def decisive_def)
  have host: "isHostTask (task hostTask)"
    by (simp add: isHostTask_def hostTask_def newTask_def)
  have sys: "validateFuncCoreToolsInstalled (samplePickProcess 60 evs)"
    "find (\<lambda>t. isFuncHostTask (samplePickProcess 60 evs) (task t)) (fetchTasks (samplePickProcess 60 evs))
       = Some hostTask"
    "pickProcessTimeout (samplePickProcess 60 evs) = Some 60"
    "executeTask (samplePickProcess 60 evs) = None"
    "taskEvents (samplePickProcess 60 evs) = evs"
    "isFuncHostTask (samplePickProcess 60 evs) = isHostTask"
    "\<not> isWindows (samplePickProcess 60 evs)"
    "unixPsTree (samplePickProcess 60 evs) = samplePsTree" for evs
    by (simp_all add: samplePickProcess_def isHostTask_def hostTask_def buildTask_def newTask_def)
  have inner: "getInnermostUnixPid samplePsTree ''4711'' = Returned ''4720''"
    by (simp add: getInnermostUnixPid_def parseInt_4711 samplePsTree_def pop_def samplePs_def)
  have n: "task_name (task buildTask) = ''build''"
    by (simp add: buildTask_def newTask_def)
  note r1 = startFuncTask_race
      [where events = ?ok and pre = "[(300, TaskProcessEnd buildTask 0)]" and t = 2500
         and host = hostTask and processId = 4711 and post = "[]" and isHost = isHostTask
         and secs = 60 and err = "FailedToFindFuncHost 60"
         and sys = "samplePickProcess 60 ?ok" and funcTask = hostTask]
  note r2 = startFuncTask_race
      [where events = ?bad and pre = "[]" and t = 300 and failed = buildTask and exitCode = 1
         and post = "[(2500, TaskProcessStart hostTask 4711)]" and isHost = isHostTask
         and secs = 60 and err = "FailedToFindFuncHost 60"
         and sys = "samplePickProcess 60 ?bad" and funcTask = hostTask]
  note r3 = startFuncTask_race
      [where events = ?late and isHost = isHostTask and secs = 60
         and err = "FailedToFindFuncHost 60"
         and sys = "samplePickProcess 60 ?late" and funcTask = hostTask]
  have q3: "quietBefore isHostTask 60000 (takeWhile (\<lambda>te. fst te < 60000) ?late)"
    by (simp add: quietBefore_def decisive_def)
  have a1: "startFuncTask isHostTask None ?ok 60 (FailedToFindFuncHost 60) = Returned (toString 4711)"
    and p1: "pickFuncProcess (samplePickProcess 60 ?ok) = getInnermostUnixPid samplePsTree (toString 4711)"
    using r1 d quiet host sys by simp_all
  have a2: "startFuncTask isHostTask None ?bad 60 (FailedToFindFuncHost 60)
              = Threw (TaskFailedToStartDebugging (task_name (task buildTask)) 1)"
    and p2: "pickFuncProcess (samplePickProcess 60 ?bad)
              = Threw (TaskFailedToStartDebugging (task_name (task buildTask)) 1)"
    using r2 d quiet sys by simp_all
  have a3: "startFuncTask isHostTask None ?late 60 (FailedToFindFuncHost 60)
              = Threw (FailedToFindFuncHost 60)"
    and p3: "pickFuncProcess (samplePickProcess 60 ?late) = Threw (FailedToFindFuncHost 60)"
    using r3 d q3 sys by simp_all
  show ?thesis
    using a1 p1 a2 p2 a3 p3 by (simp add: toString_4711 inner n)
qed

text \<open>
  C6, with the \<^verbatim>\<open>pickProcessTimeout\<close> setting at 2147484 seconds, so that
  \<^verbatim>\<open>timeoutInSeconds * 1000\<close> is above the largest delay of \<^verbatim>\<open>setTimeout\<close>: the process start
  of the func host task fires 2500 milliseconds into the wait, well within the
  configured time, and yet \<^verbatim>\<open>startFuncTask\<close> and \<^verbatim>\<open>pickFuncProcess\<close> throw the timeout
  error, because the timer has fired after 1 millisecond.
\<close>

theorem startFuncTask_timer_beyond_range:
  "startFuncTask isHostTask None [(2500, TaskProcessStart hostTask 4711)] 2147484
     (FailedToFindFuncHost 2147484) = Threw (FailedToFindFuncHost 2147484)
   \<and> pickFuncProcess (samplePickProcess 2147484 [(2500, TaskProcessStart hostTask 4711)])
       = Threw (FailedToFindFuncHost 2147484)
   \<and> isHostTask (task hostTask) \<and> (2500 :: nat) < nat (2147484 * 1000)
   \<and> setTimeoutDelay (2147484 * 1000) = 1"
  by (simp add: pickFuncProcess_def samplePickProcess_def startFuncTask_def
      waitForStartPromise_def setTimeoutDelay_def startFuncTask_callback_def reject_def
      resolve_def await_def isHostTask_def hostTask_def buildTask_def newTask_def)

section \<open>The wait of runPreDeployTask\<close>

lemma runPreDeployTask_callback_settled:
  "promise w \<noteq> Pending \<Longrightarrow> promise (runPreDeployTask_callback p w cb) = promise w"
  by (auto simp: runPreDeployTask_callback_def resolve_def reject_def Let_def
      split: Callback.splits TaskProcessEvent.splits)

lemma runPreDeployTask_settled_foldl:
  "promise w \<noteq> Pending \<Longrightarrow> promise (foldl (runPreDeployTask_callback p) w cbs) = promise w"
  by (induction cbs arbitrary: w) (simp_all add: runPreDeployTask_callback_settled)

lemma runPreDeployTask_callback_idle:
  "\<not> endOf p e \<Longrightarrow> runPreDeployTask_callback p w (TaskEvent e) = w"
  by (auto simp: runPreDeployTask_callback_def endOf_def split: TaskProcessEvent.splits)

lemma runPreDeployTask_idle_foldl:
  "\<forall>te \<in> set pre. \<not> endOf p (snd te) \<Longrightarrow>
   foldl (runPreDeployTask_callback p) w (map (\<lambda>te. TaskEvent (snd te)) pre) = w"
  by (induction pre arbitrary: w) (simp_all add: runPreDeployTask_callback_idle)

lemma runPreDeployTask_first:
  assumes "foldl (runPreDeployTask_callback p) w0 quiet = w0"
    and "promise (runPreDeployTask_callback p w0 cb) = v" and "v \<noteq> Pending"
  shows "promise (foldl (runPreDeployTask_callback p) w0 (quiet @ cb # rest)) = v"
  using assms by (simp add: runPreDeployTask_settled_foldl)

lemma waitForPreDeployTask_pending:
  "\<forall>te \<in> set events. \<not> endOf p (snd te) \<Longrightarrow> waitForPreDeployTask p events = Pending"
  by (simp add: waitForPreDeployTask_def runPreDeployTask_idle_foldl)

lemma waitForPreDeployTask_end:
  assumes "events = pre @ (t, TaskProcessEnd ended exitCode) # post" and "sameObject ended p"
    and "\<forall>te \<in> set pre. \<not> endOf p (snd te)"
  shows "waitForPreDeployTask p events =
           (if exitCode = 0 then Resolved ()
            else Rejected (PreDeployTaskFailed (task_name (task ended)) exitCode))"
proof -
  let ?w0 = "\<lparr>promise = Pending, listener = True, errorListener = False\<rparr> :: unit Waiting"
  let ?v = "if exitCode = 0 then Resolved ()
            else Rejected (PreDeployTaskFailed (task_name (task ended)) exitCode)"
  have idle: "foldl (runPreDeployTask_callback p) ?w0 (map (\<lambda>te. TaskEvent (snd te)) pre) = ?w0"
    using assms(3) by (simp add: runPreDeployTask_idle_foldl)
  have hit: "promise (runPreDeployTask_callback p ?w0 (TaskEvent (TaskProcessEnd ended exitCode))) = ?v"
    using assms(2) by (simp add: runPreDeployTask_callback_def resolve_def reject_def)
  have settled: "?v \<noteq> Pending" by simp
  have "promise (foldl (runPreDeployTask_callback p) ?w0
           (map (\<lambda>te. TaskEvent (snd te)) pre @ TaskEvent (TaskProcessEnd ended exitCode)
              # map (\<lambda>te. TaskEvent (snd te)) post)) = ?v"
    by (rule runPreDeployTask_first [OF idle hit settled])
  then show ?thesis
    unfolding waitForPreDeployTask_def assms(1) by simp
qed

lemma runPreDeployTask_found:
  assumes "preDeployTaskName k (preDeployTaskSetting env) lang rt = Some name"
    and "findPreDeployTask env name path (tasks env) = Some p"
    and "executePreDeployTask env = None"
  shows "fst (runPreDeployTask k env path lang True rt w)
           = await (waitForPreDeployTask p (taskProcessEvents env))"
  using assms by (simp add: runPreDeployTask_def Let_def)

text \<open>
  C1, as amended. When \<^verbatim>\<open>runPreDeployTask\<close> finds and executes a pre-deploy task, the
  wait that follows has no timer: only task events are dispatched to it. It ends at the
  first process-end event of the pre-deploy task object, resolving on exit code 0 and
  rejecting with the task-failure error otherwise; when no such event fires, the wait
  never ends, whatever time passes.
\<close>

theorem preDeployTask_wait_has_no_timeout:
  assumes "preDeployTaskName k (preDeployTaskSetting env) lang rt = Some name"
    and "findPreDeployTask env name path (tasks env) = Some p"
    and "executePreDeployTask env = None"
  shows "(\<forall>pre t ended exitCode post.
            taskProcessEvents env = pre @ (t, TaskProcessEnd ended exitCode) # post
            \<and> sameObject ended p \<and> (\<forall>te \<in> set pre. \<not> endOf p (snd te))
            \<longrightarrow> fst (runPreDeployTask k env path lang True rt w)
                  = (if exitCode = 0 then Returned ()
                     else Threw (PreDeployTaskFailed (task_name (task ended)) exitCode)))
       \<and> ((\<forall>te \<in> set (taskProcessEvents env). \<not> endOf p (snd te))
            \<longrightarrow> fst (runPreDeployTask k env path lang True rt w) = NeverSettles)
       \<and> eventLoop None (taskProcessEvents env) = map (\<lambda>te. TaskEvent (snd te)) (taskProcessEvents env)"
proof (intro conjI allI impI)
  fix pre t ended exitCode post
  assume a: "taskProcessEvents env = pre @ (t, TaskProcessEnd ended exitCode) # post
            \<and> sameObject ended p \<and> (\<forall>te \<in> set pre. \<not> endOf p (snd te))"
  then have "waitForPreDeployTask p (taskProcessEvents env) =
           (if exitCode = 0 then Resolved ()
            else Rejected (PreDeployTaskFailed (task_name (task ended)) exitCode))"
    using waitForPreDeployTask_end by blast
  then show "fst (runPreDeployTask k env path lang True rt w)
                  = (if exitCode = 0 then Returned ()
                     else Threw (PreDeployTaskFailed (task_name (task ended)) exitCode))"
    by (simp add: runPreDeployTask_found [OF assms] await_def)
next
  assume "\<forall>te \<in> set (taskProcessEvents env). \<not> endOf p (snd te)"
  then show "fst (runPreDeployTask k env path lang True rt w) = NeverSettles"
    by (simp add: runPreDeployTask_found [OF assms] waitForPreDeployTask_pending await_def)
next
  show "eventLoop None (taskProcessEvents env) = map (\<lambda>te. TaskEvent (snd te)) (taskProcessEvents env)"
    by simp
qed

lemma toLowerCase_publish: "toLowerCase ''publish'' = ''publish''"
  by (simp add: toLowerCase_def toLowerChar_def)

lemma toLowerCase_build: "toLowerCase ''build'' = ''build''"
  by (simp add: toLowerCase_def toLowerChar_def)

lemma sample_find_publish:
  "findPreDeployTask (sampleDeployment scm setting lang [buildTask, publishTask] events upload)
     ''publish'' ''/w/app'' [buildTask, publishTask] = Some publishTask"
  by (simp add: isPreDeployTask_def toLowerCase_publish toLowerCase_build sampleDeployment_def
      buildTask_def publishTask_def newTask_def sampleFolder_def)

theorem preDeployTask_wait_can_last_forever:
  "fst (runPreDeployTask sampleConstants
          (sampleDeployment None None CSharp [buildTask, publishTask]
             [(86400000, TaskProcessEnd buildTask 0)] None)
          ''/w/app'' CSharp True v2 emptyWorld) = NeverSettles"
proof -
  let ?env = "sampleDeployment None None CSharp [buildTask, publishTask]
             [(86400000, TaskProcessEnd buildTask 0)] None"
  have n: "preDeployTaskName sampleConstants (preDeployTaskSetting ?env) CSharp v2 = Some ''publish''"
    by (simp add: preDeployTaskName_def truthy_def sampleDeployment_def sampleConstants_def)
  have f: "findPreDeployTask ?env ''publish'' ''/w/app'' (tasks ?env) = Some publishTask"
    using sample_find_publish by (simp add: sampleDeployment_def)
  have e: "executePreDeployTask ?env = None" by (simp add: sampleDeployment_def)
  have w: "waitForPreDeployTask publishTask (taskProcessEvents ?env) = Pending"
    by (simp add: waitForPreDeployTask_def sampleDeployment_def runPreDeployTask_callback_def
        sameObject_def buildTask_def publishTask_def)
  show ?thesis
    by (simp add: runPreDeployTask_found [OF n f e] w await_def)
qed

theorem preDeployTask_wait_has_no_timeout_witness:
  "fst (runPreDeployTask sampleConstants
          (sampleDeployment None None CSharp [buildTask, publishTask]
             [(1200, TaskProcessEnd buildTask 0), (5000, TaskProcessEnd publishTask 1)] None)
          ''/w/app'' CSharp True v2 emptyWorld) = Threw (PreDeployTaskFailed ''publish'' 1)"
proof -
  let ?env = "sampleDeployment None None CSharp [buildTask, publishTask]
             [(1200, TaskProcessEnd buildTask 0), (5000, TaskProcessEnd publishTask 1)] None"
  have n: "preDeployTaskName sampleConstants (preDeployTaskSetting ?env) CSharp v2 = Some ''publish''"
    by (simp add: preDeployTaskName_def truthy_def sampleDeployment_def sampleConstants_def)
  have f: "findPreDeployTask ?env ''publish'' ''/w/app'' (tasks ?env) = Some publishTask"
    using sample_find_publish by (simp add: sampleDeployment_def)
  have e: "executePreDeployTask ?env = None" by (simp add: sampleDeployment_def)
  have ev: "taskProcessEvents ?env = [(1200, TaskProcessEnd buildTask 0)] @ (5000, TaskProcessEnd publishTask 1) # []"
    by (simp add: sampleDeployment_def)
  have q: "sameObject publishTask publishTask \<and> (\<forall>te \<in> set [(1200::nat, TaskProcessEnd buildTask 0)]. \<not> endOf publishTask (snd te))"
    by (simp add: sameObject_def endOf_def buildTask_def publishTask_def)
  from preDeployTask_wait_has_no_timeout [OF n f e, of emptyWorld] ev q
  have "fst (runPreDeployTask sampleConstants ?env ''/w/app'' CSharp True v2 emptyWorld)
          = (if (1::int) = 0 then Returned ()
             else Threw (PreDeployTaskFailed (task_name (task publishTask)) 1))"
    by blast
  then show ?thesis by (simp add: publishTask_def newTask_def)
qed

section \<open>getInnermostWindowsPid\<close>

lemma loop_step:
  "int now < maxTime \<Longrightarrow> notYetFunc g i \<Longrightarrow>
   getInnermostWindowsPid_loop g maxTime err i now
     = getInnermostWindowsPid_loop g maxTime err (Suc i)
         (now + fetchMillis (g i) + 500 + delayOverrun (g i))"
  by (subst getInnermostWindowsPid_loop.simps)
    (auto simp: notYetFunc_def isFuncLeaf_def Let_def split: option.splits)

lemma loop_skip:
  "\<forall>j<n. int (pollTime g start j) < maxTime \<and> notYetFunc g j \<Longrightarrow>
   getInnermostWindowsPid_loop g maxTime err 0 start
     = getInnermostWindowsPid_loop g maxTime err n (pollTime g start n)"
proof (induction n)
  case 0
  then show ?case by simp
next
  case (Suc n)
  then have "getInnermostWindowsPid_loop g maxTime err 0 start
     = getInnermostWindowsPid_loop g maxTime err n (pollTime g start n)" by simp
  also have "\<dots> = getInnermostWindowsPid_loop g maxTime err (Suc n) (pollTime g start (Suc n))"
    using Suc.prems by (simp add: loop_step)
  finally show ?case .
qed

lemma loop_settles: "getInnermostWindowsPid_loop g maxTime err i now \<noteq> NeverSettles"
proof (induction g maxTime err i now rule: getInnermostWindowsPid_loop.induct)
  case (1 g maxTime err i now)
  show ?case
    by (subst getInnermostWindowsPid_loop.simps) (use 1 in \<open>auto simp: Let_def split: option.splits\<close>)
qed

text \<open>
  C2, as amended. When the windows-process-tree module is found,
  \<^verbatim>\<open>getInnermostWindowsPid\<close> polls the tree rooted at the pid while \<^verbatim>\<open>Date.now()\<close> is before
  the deadline \<^verbatim>\<open>timeoutInSeconds * 1000\<close> milliseconds after its start. Suppose the first
  \<open>n\<close> polls were made before the deadline and each yielded a tree whose first-child
  leaf is not the func process. Then: if poll \<open>n\<close> is before the deadline and yields a
  tree whose first-child leaf has \<^verbatim>\<open>func\<close> in its name (in any case), the function returns
  that leaf's pid as a string; if it yields no tree, the function throws the
  host-no-longer-running error; if the deadline has passed at the loop test, the
  function throws the given timeout error. After a poll that does not find the func
  process the function waits \<^verbatim>\<open>delay(500)\<close>: the next loop test comes 500 milliseconds
  after the answer of the poll, plus what the timer overshoots. The function always
  returns or throws. When the module is not found, the function throws the
  failed-to-find-dependency error without polling, whatever its arguments.
\<close>

theorem getInnermostWindowsPid_polls:
  fixes getProcessTree :: "nat option \<Rightarrow> nat \<Rightarrow> Poll"
    and pid :: string and start :: nat and secs :: int and err :: Error
  defines "g \<equiv> getProcessTree (Number pid)"
    and "maxTime \<equiv> int start + secs * 1000"
    and "result \<equiv> getInnermostWindowsPid (Some getProcessTree) start pid secs err"
  assumes reached: "\<forall>j<n. int (pollTime g start j) < maxTime \<and> notYetFunc g j"
  shows "(int (pollTime g start n) < maxTime \<and> psTree (g n) = Some tree \<and> isFuncLeaf tree
            \<longrightarrow> result = Returned (toString (node_pid (firstLeaf tree))))
       \<and> (int (pollTime g start n) < maxTime \<and> psTree (g n) = None
            \<longrightarrow> result = Threw FuncTaskStopped)
       \<and> (\<not> int (pollTime g start n) < maxTime \<longrightarrow> result = Threw err)
       \<and> pollTime g start (Suc n)
           = pollTime g start n + fetchMillis (g n) + 500 + delayOverrun (g n)
       \<and> result \<noteq> NeverSettles
       \<and> getInnermostWindowsPid None start pid secs err
           = Threw (NoWindowsProcessTree ''windows-process-tree'')"
proof -
  have r: "result = getInnermostWindowsPid_loop g maxTime err n (pollTime g start n)"
    using loop_skip [OF reached, of err]
    by (simp add: getInnermostWindowsPid_def result_def g_def maxTime_def)
  have none: "getInnermostWindowsPid None start pid secs err
                = Threw (NoWindowsProcessTree ''windows-process-tree'')"
    by (simp add: getInnermostWindowsPid_def)
  show ?thesis
    unfolding r none
    by (subst (1 2 3) getInnermostWindowsPid_loop.simps)
      (auto simp: isFuncLeaf_def Let_def loop_settles)
qed

theorem getInnermostWindowsPid_without_module:
  "getInnermostWindowsPid None 0 ''4711'' 60 (FailedToFindFuncHost 60)
     = Threw (NoWindowsProcessTree ''windows-process-tree'')"
  by (simp add: getInnermostWindowsPid_def)

lemma Number_4711: "Number ''4711'' = Some 4711"
  by (simp add: Number_def isDigit_def digitsValue_def)

lemma toString_4733: "toString 4733 = ''4733''"
  by (simp add: toString.simps digit_def)

lemma toLowerCase_Func_exe: "toLowerCase ''Func.exe'' = ''func.exe''"
  by code_simp

lemma toLowerCase_powershell_exe: "toLowerCase ''powershell.exe'' = ''powershell.exe''"
  by code_simp

lemma isFuncLeaf_shellWithFunc: "isFuncLeaf shellWithFunc"
  by (simp add: isFuncLeaf_def shellWithFunc_def toLowerCase_Func_exe)

lemma not_isFuncLeaf_shellOnly: "\<not> isFuncLeaf shellOnly"
  by (simp add: isFuncLeaf_def shellOnly_def toLowerCase_powershell_exe)

theorem getInnermostWindowsPid_polls_witness:
  "getInnermostWindowsPid (Some sampleProcessTree) 1000 ''4711'' 60 (FailedToFindFuncHost 60)
     = Returned ''4733''
   \<and> pollTime (sampleProcessTree (Number ''4711'')) 1000 1 = 1523"
proof -
  let ?g = "sampleProcessTree (Number ''4711'')"
  have pre: "\<forall>j<1. int (pollTime ?g 1000 j) < int 1000 + 60 * 1000 \<and> notYetFunc ?g j"
    by (simp add: notYetFunc_def sampleProcessTree_def Number_4711 not_isFuncLeaf_shellOnly)
  have t: "pollTime ?g 1000 1 = 1523"
    by (simp add: sampleProcessTree_def)
  have t1: "pollTime ?g 1000 (Suc 0) = 1523"
    using t by simp
  have hit: "int (pollTime ?g 1000 1) < int 1000 + 60 * 1000 \<and> psTree (?g 1) = Some shellWithFunc
               \<and> isFuncLeaf shellWithFunc"
    by (simp add: t isFuncLeaf_shellWithFunc) (simp add: sampleProcessTree_def Number_4711)
  have leaf: "toString (node_pid (firstLeaf shellWithFunc)) = ''4733''"
    by (simp add: shellWithFunc_def toString_4733)
  from getInnermostWindowsPid_polls
         [of 1 sampleProcessTree "''4711''" 1000 60 shellWithFunc "FailedToFindFuncHost 60", OF pre] hit
  have "getInnermostWindowsPid (Some sampleProcessTree) 1000 ''4711'' 60 (FailedToFindFuncHost 60)
          = Returned (toString (node_pid (firstLeaf shellWithFunc)))"
    by blast
  then show ?thesis using t1 by (simp add: leaf)
qed

section \<open>The task provider\<close>











lemma runStatements_prefix:
  "snd (runStatements throwsAt ss h)
     = foldl (\<lambda>h s. execute s h) h (takeWhile (\<lambda>s. throwsAt s = None) ss)"
  by (induction ss arbitrary: h) (auto split: option.splits)

lemma activate_registered:
  "snd (activate throwsAt h)
     = foldl (\<lambda>h s. execute s h) (createOutputChannel ''Azure Functions'' h)
         (takeWhile (\<lambda>s. throwsAt s = None) activationCallback)"
  by (simp add: activate_def callWithTelemetryAndErrorHandling_def runStatements_prefix)

text \<open>
  C7, as amended. \<^verbatim>\<open>activate\<close> makes its registrations inside the callback of
  \<^verbatim>\<open>callWithTelemetryAndErrorHandling\<close>. When no statement of the callback throws, the
  host holds afterwards, in the order of extension.ts, a handler for every command
  identifier that extension.ts registers, with \<^verbatim>\<open>azureFunctions.deploy\<close>,
  \<^verbatim>\<open>azureFunctions.pickProcess\<close> and \<^verbatim>\<open>azureFunctions.copyFunctionUrl\<close> bound to \<^verbatim>\<open>deploy\<close>,
  \<^verbatim>\<open>pickFuncProcess\<close> and \<^verbatim>\<open>copyFunctionUrl\<close>, the tree-data provider of the explorer view,
  the handler of the workspace-folders event and a task provider for the task type
  \<^verbatim>\<open>func\<close>. In every case the host holds exactly the registrations of the statements
  before the first one that throws, and \<^verbatim>\<open>activate\<close> returns an API provider.
\<close>

theorem activate_registers:
  "(list_all (\<lambda>s. throwsAt s = None) activationCallback \<longrightarrow>
      map fst (commands (snd (activate throwsAt h))) = map fst (commands h) @ commandIds
      \<and> (''azureFunctions.deploy'', Function ''deploy'') \<in> set (commands (snd (activate throwsAt h)))
      \<and> (''azureFunctions.pickProcess'', Function ''pickFuncProcess'')
          \<in> set (commands (snd (activate throwsAt h)))
      \<and> (''azureFunctions.copyFunctionUrl'', Function ''copyFunctionUrl'')
          \<in> set (commands (snd (activate throwsAt h)))
      \<and> taskProviders (snd (activate throwsAt h)) = taskProviders h @ [(''func'', ''FuncTaskProvider'')]
      \<and> treeDataProviders (snd (activate throwsAt h))
          = treeDataProviders h @ [(''azureFunctionsExplorer'', ''AzureTreeDataProvider'')]
      \<and> eventHandlers (snd (activate throwsAt h))
          = eventHandlers h @ [''azureFunctions.validateFunctionProjects''])
   \<and> snd (activate throwsAt h)
       = foldl (\<lambda>h s. execute s h) (createOutputChannel ''Azure Functions'' h)
           (takeWhile (\<lambda>s. throwsAt s = None) activationCallback)
   \<and> fst (activate throwsAt h) = ApiProvider []"
proof (intro conjI impI)
  assume "list_all (\<lambda>s. throwsAt s = None) activationCallback"
  then have all: "takeWhile (\<lambda>s. throwsAt s = None) activationCallback = activationCallback"
    by (simp add: list_all_iff)
  have run: "snd (activate throwsAt h)
               = foldl (\<lambda>h s. execute s h) (createOutputChannel ''Azure Functions'' h) activationCallback"
    by (simp add: activate_registered all)
  have eval: "commands (foldl (\<lambda>h s. execute s h) (createOutputChannel ''Azure Functions'' h) activationCallback)
                = commands h @ commands (foldl (\<lambda>h s. execute s h) emptyHost activationCallback)"
    by (simp add: activationCallback_def registerCommand_def registerTaskProvider_def
        registerEvent_def registerTreeDataProvider_def createOutputChannel_def emptyHost_def)
  have cs: "map fst (commands (foldl (\<lambda>h s. execute s h) emptyHost activationCallback)) = commandIds"
    by (simp add: activationCallback_def registerCommand_def registerTaskProvider_def
        registerEvent_def registerTreeDataProvider_def emptyHost_def commandIds_def)
  show "map fst (commands (snd (activate throwsAt h))) = map fst (commands h) @ commandIds"
    by (simp add: run eval cs)
  have mem: "(''azureFunctions.deploy'', Function ''deploy'')
               \<in> set (commands (foldl (\<lambda>h s. execute s h) emptyHost activationCallback))
             \<and> (''azureFunctions.pickProcess'', Function ''pickFuncProcess'')
               \<in> set (commands (foldl (\<lambda>h s. execute s h) emptyHost activationCallback))
             \<and> (''azureFunctions.copyFunctionUrl'', Function ''copyFunctionUrl'')
               \<in> set (commands (foldl (\<lambda>h s. execute s h) emptyHost activationCallback))"
    by (simp add: activationCallback_def registerCommand_def registerTaskProvider_def
        registerEvent_def registerTreeDataProvider_def emptyHost_def)
  show "(''azureFunctions.deploy'', Function ''deploy'') \<in> set (commands (snd (activate throwsAt h)))"
    and "(''azureFunctions.pickProcess'', Function ''pickFuncProcess'')
          \<in> set (commands (snd (activate throwsAt h)))"
    and "(''azureFunctions.copyFunctionUrl'', Function ''copyFunctionUrl'')
          \<in> set (commands (snd (activate throwsAt h)))"
    using mem by (simp_all add: run eval)
  show "taskProviders (snd (activate throwsAt h)) = taskProviders h @ [(''func'', ''FuncTaskProvider'')]"
    by (simp add: run activationCallback_def registerCommand_def registerTaskProvider_def
        registerEvent_def registerTreeDataProvider_def createOutputChannel_def func_def)
  show "treeDataProviders (snd (activate throwsAt h))
          = treeDataProviders h @ [(''azureFunctionsExplorer'', ''AzureTreeDataProvider'')]"
    by (simp add: run activationCallback_def registerCommand_def registerTaskProvider_def
        registerEvent_def registerTreeDataProvider_def createOutputChannel_def)
  show "eventHandlers (snd (activate throwsAt h))
          = eventHandlers h @ [''azureFunctions.validateFunctionProjects'']"
    by (simp add: run activationCallback_def registerCommand_def registerTaskProvider_def
        registerEvent_def registerTreeDataProvider_def createOutputChannel_def)
next
  show "snd (activate throwsAt h)
       = foldl (\<lambda>h s. execute s h) (createOutputChannel ''Azure Functions'' h)
           (takeWhile (\<lambda>s. throwsAt s = None) activationCallback)"
    by (rule activate_registered)
next
  show "fst (activate throwsAt h) = ApiProvider []"
    by (simp add: activate_def Let_def)
qed

theorem activate_registers_witness:
  "list_all (\<lambda>s. (\<lambda>s. None :: Error option) s = None) activationCallback
   \<and> length (commands (snd (activate (\<lambda>s. None) emptyHost))) = 37
   \<and> map_of (commands (snd (activate (\<lambda>s. None) emptyHost))) ''azureFunctions.deploy''
       = Some (Function ''deploy'')
   \<and> map_of (commands (snd (activate (\<lambda>s. None) emptyHost))) ''azureFunctions.pickProcess''
       = Some (Function ''pickFuncProcess'')
   \<and> map_of (commands (snd (activate (\<lambda>s. None) emptyHost))) ''azureFunctions.copyFunctionUrl''
       = Some (Function ''copyFunctionUrl'')
   \<and> taskProviders (snd (activate (\<lambda>s. None) emptyHost)) = [(''func'', ''FuncTaskProvider'')]
   \<and> treeDataProviders (snd (activate (\<lambda>s. None) emptyHost))
       = [(''azureFunctionsExplorer'', ''AzureTreeDataProvider'')]"
proof -
  let ?h = "snd (activate (\<lambda>s. None) emptyHost)"
  have ok: "list_all (\<lambda>s. (\<lambda>s. None :: Error option) s = None) activationCallback"
    by (simp add: list_all_iff)
  have e: "commands emptyHost = []" "taskProviders emptyHost = []" "treeDataProviders emptyHost = []"
    by (simp_all add: emptyHost_def)
  from activate_registers [of "\<lambda>s. None" emptyHost] ok
  have full: "map fst (commands ?h) = map fst (commands emptyHost) @ commandIds
      \<and> (''azureFunctions.deploy'', Function ''deploy'') \<in> set (commands ?h)
      \<and> (''azureFunctions.pickProcess'', Function ''pickFuncProcess'') \<in> set (commands ?h)
      \<and> (''azureFunctions.copyFunctionUrl'', Function ''copyFunctionUrl'') \<in> set (commands ?h)
      \<and> taskProviders ?h = taskProviders emptyHost @ [(''func'', ''FuncTaskProvider'')]
      \<and> treeDataProviders ?h
          = treeDataProviders emptyHost @ [(''azureFunctionsExplorer'', ''AzureTreeDataProvider'')]
      \<and> eventHandlers ?h = eventHandlers emptyHost @ [''azureFunctions.validateFunctionProjects'']"
    by blast
  have d: "distinct commandIds"
    by (simp add: commandIds_def)
  have l: "length commandIds = 37"
    by (simp add: commandIds_def)
  have m: "map fst (commands ?h) = commandIds"
    using full e by simp
  then have dm: "distinct (map fst (commands ?h))"
    using d by simp
  have len: "length (commands ?h) = 37"
    using m l by (metis length_map)
  show ?thesis
    using full e ok len dm by simp
qed

theorem activate_stops_at_duplicate_command:
  "map_of (commands (snd (activate deployAlreadyExists emptyHost))) ''azureFunctions.deploy'' = None
   \<and> map_of (commands (snd (activate deployAlreadyExists emptyHost))) ''azureFunctions.copyFunctionUrl''
       = None
   \<and> length (commands (snd (activate deployAlreadyExists emptyHost))) = 13
   \<and> taskProviders (snd (activate deployAlreadyExists emptyHost)) = []
   \<and> fst (activate deployAlreadyExists emptyHost) = ApiProvider []"
  by (simp add: activate_def callWithTelemetryAndErrorHandling_def activationCallback_def
      deployAlreadyExists_def registerCommand_def registerTaskProvider_def registerEvent_def
      registerTreeDataProvider_def createOutputChannel_def emptyHost_def Let_def)

section \<open>What deploy calls\<close>

lemma addsOnlyI: "(\<And>w. \<exists>cs. calls (snd (m w)) = calls w @ cs \<and> set cs \<subseteq> S) \<Longrightarrow> addsOnly S m"
  by (simp add: addsOnly_def)

lemma addsOnlyD:
  assumes "addsOnly S m" and "m w = (r, w')"
  shows "\<exists>cs. calls w' = calls w @ cs \<and> set cs \<subseteq> S"
proof -
  from assms(1) have "\<exists>cs. calls (snd (m w)) = calls w @ cs \<and> set cs \<subseteq> S"
    unfolding addsOnly_def by (rule spec)
  then show ?thesis by (simp add: assms(2))
qed

lemma addsOnly_returns [intro!, simp]: "addsOnly S (returns x)"
  by (simp add: addsOnly_def returns_def)

lemma addsOnly_throws [intro!, simp]: "addsOnly S (throws e)"
  by (simp add: addsOnly_def throws_def)

lemma addsOnly_external [intro!, simp]: "addsOnly S (external r)"
  by (simp add: addsOnly_def external_def split: sum.splits)

lemma addsOnly_externalVoid [intro!, simp]: "addsOnly S (externalVoid r)"
  by (simp add: addsOnly_def externalVoid_def split: option.splits)

lemma addsOnly_setTelemetry [intro!, simp]: "addsOnly S (perform (setTelemetry key v))"
  by (simp add: addsOnly_def perform_def setTelemetry_def)

lemma addsOnly_toOutput [intro!, simp]: "addsOnly S (perform (toOutput c))"
  by (simp add: addsOnly_def perform_def toOutput_def)

lemma addsOnly_logCall [intro]: "c \<in> S \<Longrightarrow> addsOnly S (perform (logCall c))"
  by (simp add: addsOnly_def perform_def logCall_def)

lemma addsOnly_showWarningMessage [intro!, simp]: "addsOnly S (showWarningMessage r)"
  by (cases r) (simp_all add: showWarningMessage_def)

lemma addsOnly_andThen [intro!]:
  assumes "addsOnly S m" and "\<And>x. addsOnly S (f x)"
  shows "addsOnly S (andThen m f)"
proof (rule addsOnlyI)
  fix w
  obtain r w' where mw: "m w = (r, w')" by (cases "m w")
  obtain cs where cs: "calls w' = calls w @ cs" "set cs \<subseteq> S"
    using addsOnlyD [OF assms(1) mw] by blast
  show "\<exists>cs. calls (snd (andThen m f w)) = calls w @ cs \<and> set cs \<subseteq> S"
  proof (cases r)
    case (Returned x)
    obtain ds where "calls (snd (f x w')) = calls w' @ ds" "set ds \<subseteq> S"
      using addsOnlyD [OF assms(2) [of x], of w' "fst (f x w')" "snd (f x w')"] by auto
    then show ?thesis using cs mw Returned by (auto simp: andThen_def)
  next
    case (Threw e)
    then show ?thesis using cs mw by (auto simp: andThen_def)
  next
    case NeverSettles
    then show ?thesis using cs mw by (auto simp: andThen_def)
  qed
qed

lemma addsOnly_tryFinally [intro!]:
  assumes "addsOnly S body" and "addsOnly S fin"
  shows "addsOnly S (tryFinally body fin)"
proof (rule addsOnlyI)
  fix w
  obtain r w' where bw: "body w = (r, w')" by (cases "body w")
  obtain cs where cs: "calls w' = calls w @ cs" "set cs \<subseteq> S"
    using addsOnlyD [OF assms(1) bw] by blast
  obtain u w'' where fw: "fin w' = (u, w'')" by (cases "fin w'")
  obtain ds where ds: "calls w'' = calls w' @ ds" "set ds \<subseteq> S"
    using addsOnlyD [OF assms(2) fw] by blast
  show "\<exists>cs. calls (snd (tryFinally body fin w)) = calls w @ cs \<and> set cs \<subseteq> S"
    using bw fw cs ds by (cases r; cases u) (auto simp: tryFinally_def)
qed

lemma addsOnly_if [intro!]:
  "(c \<Longrightarrow> addsOnly S a) \<Longrightarrow> (\<not> c \<Longrightarrow> addsOnly S b) \<Longrightarrow> addsOnly S (if c then a else b)"
  by simp

lemma addsOnly_mono: "addsOnly S m \<Longrightarrow> S \<subseteq> T \<Longrightarrow> addsOnly T m"
  unfolding addsOnly_def by (meson subset_trans)

lemma addsOnly_chooseNode: "addsOnly S (chooseNode env target functionAppId)"
  unfolding chooseNode_def
  by (cases target; cases functionAppId) (auto split: option.splits)

lemma addsOnly_beforePreDeployTask:
  "addsOnly {ShowConfirmDeployWarning True} (beforePreDeployTask env target functionAppId)"
  unfolding beforePreDeployTask_def Let_def
  by (intro addsOnly_andThen addsOnly_if addsOnly_chooseNode addsOnly_logCall)
    (auto split: Target.splits prod.splits)

lemma addsOnly_runPreDeployTask:
  "addsOnly (range ExecuteTask) (runPreDeployTask k env path lang isZip rt)"
  by (rule addsOnlyI)
    (auto simp: runPreDeployTask_def Let_def toOutput_def setTelemetry_def logCall_def
      split: option.splits)

lemma deploying_calls:
  "calls (snd (deploying env lang path w)) =
     calls w @
     (if lang = Java then
        ClientStop # (if clientStop env = None then [AppserviceDeploy path] else []) @ [ClientStart]
      else [AppserviceDeploy path])"
  by (simp add: deploying_def tryFinally_def andThen_def perform_def externalVoid_def returns_def
      logCall_def toOutput_def split: option.splits)

lemma deploying_result:
  "fst (deploying env lang path w) =
     (if lang = Java then
        (case clientStart env of
           Some e \<Rightarrow> Threw e
         | None \<Rightarrow> (case clientStop env of
                      Some e \<Rightarrow> Threw e
                    | None \<Rightarrow> (case appserviceDeploy env of Some e \<Rightarrow> Threw e | None \<Rightarrow> Returned ())))
      else (case appserviceDeploy env of Some e \<Rightarrow> Threw e | None \<Rightarrow> Returned ()))"
  by (simp add: deploying_def tryFinally_def andThen_def perform_def externalVoid_def returns_def
      logCall_def toOutput_def split: option.splits)

lemma strictEquals_LocalGit:
  "strictEquals (scmTypeValue c) (StringValue LocalGit) = (scmType c = Some LocalGit)"
  by (cases "scmType c") (auto simp: scmTypeValue_def)

lemma afterPreDeployTask_calls:
  "calls (snd (afterPreDeployTask env d w)) =
     calls (snd (deploying env (d_language d) (uploadPath d) w))
     @ (if fst (deploying env (d_language d) (uploadPath d) w) = Returned ()
        then [ShowDeployCompleteMessage] else [])"
  by (cases "deploying env (d_language d) (uploadPath d) w";
      cases "fst (deploying env (d_language d) (uploadPath d) w)")
    (auto simp: afterPreDeployTask_def uploadPath_def strictEquals_LocalGit Let_def andThen_def
      perform_def externalVoid_def logCall_def toOutput_def split: option.splits)

lemma afterPreDeployTask_result:
  "fst (deploying env (d_language d) (uploadPath d) w) = Threw e \<Longrightarrow>
   fst (afterPreDeployTask env d w) = Threw e"
  by (cases "deploying env (d_language d) (uploadPath d) w")
    (auto simp: afterPreDeployTask_def uploadPath_def strictEquals_LocalGit Let_def andThen_def)

lemma deploy_reaches_upload:
  assumes "beforePreDeployTask env target functionAppId w = (Returned d, w1)"
    and "runPreDeployTask k env (d_deployFsPath d) (d_language d) (d_isZipDeploy d) (d_runtime d) w1
           = (Returned (), w2)"
  shows "deploy k env target functionAppId w = afterPreDeployTask env d w2"
  using assms by (simp add: deploy_def andThen_def)

lemma addsOnly_deploying_other:
  "lang \<noteq> Java \<Longrightarrow> addsOnly (range AppserviceDeploy) (deploying env lang path)"
  by (rule addsOnlyI) (simp add: deploying_calls)

lemma returnsOnly_returns: "Q x \<Longrightarrow> returnsOnly Q (returns x)"
  by (simp add: returnsOnly_def returns_def)

lemma returnsOnly_andThen: "(\<And>x. returnsOnly Q (f x)) \<Longrightarrow> returnsOnly Q (andThen m f)"
  unfolding returnsOnly_def andThen_def
  by (auto split: prod.splits Completion.splits)

lemma returnsOnly_andThen_external:
  "(\<And>x. r = Inr x \<Longrightarrow> returnsOnly Q (f x)) \<Longrightarrow> returnsOnly Q (andThen (external r) f)"
  unfolding returnsOnly_def andThen_def external_def
  by (auto split: prod.splits Completion.splits sum.splits)

lemma returnsOnly_case_prod:
  "(\<And>a b. returnsOnly Q (f a b)) \<Longrightarrow> returnsOnly Q (case_prod f x)"
  by (cases x) simp

lemma beforePreDeployTask_returns_language:
  "returnsOnly (\<lambda>d. projectLanguage env = Inr (d_language d))
     (beforePreDeployTask env target functionAppId)"
  unfolding beforePreDeployTask_def Let_def
  by (intro returnsOnly_andThen_external returnsOnly_andThen returnsOnly_case_prod
      returnsOnly_returns) simp

lemma beforePreDeployTask_language:
  "beforePreDeployTask env target functionAppId w = (Returned d, w1) \<Longrightarrow>
   projectLanguage env = Inr (d_language d)"
  using beforePreDeployTask_returns_language unfolding returnsOnly_def by blast


section \<open>A pre-deploy task that is not found\<close>

lemma runPreDeployTask_not_found:
  assumes "preDeployTaskName k (preDeployTaskSetting env) lang rt = Some name"
    and "findPreDeployTask env name path (tasks env) = None"
  shows "runPreDeployTask k env path lang True rt w =
           (if truthy (preDeployTaskSetting env)
            then (Threw (NoPreDeployTaskError name),
                  setTelemetry ''foundPreDeployTask'' ''false'' (setTelemetry ''preDeployTask'' name w))
            else (Returned (),
                  toOutput (AppendLine [NoPreDeployTaskWarning name, HowToAddPreDeploy,
                                        HowToAddPreDeploy1, HowToAddPreDeploy2, HowToAddPreDeploy3])
                    (toOutput (ShowChannel True)
                       (setTelemetry ''foundPreDeployTask'' ''false''
                          (setTelemetry ''preDeployTask'' name w)))))"
  using assms by (simp add: runPreDeployTask_def Let_def)

lemma inferred_language_not_Java:
  "\<not> truthy setting \<Longrightarrow> preDeployTaskName k setting lang rt = Some name \<Longrightarrow> lang \<noteq> Java"
  by (auto simp: preDeployTaskName_def)

lemma deploy_throws_in_runPreDeployTask:
  assumes "beforePreDeployTask env target functionAppId w = (Returned d, w1)"
    and "runPreDeployTask k env (d_deployFsPath d) (d_language d) (d_isZipDeploy d) (d_runtime d) w1
           = (Threw e, w2)"
  shows "deploy k env target functionAppId w = (Threw e, w2)"
  using assms by (simp add: deploy_def andThen_def)

text \<open>
  C8. Suppose deploy has reached \<^verbatim>\<open>runPreDeployTask\<close> for a zip deploy, a task name is
  known (from the setting or the language) and no task of that name scoped to the deploy
  path is found. If the name comes from the \<^verbatim>\<open>preDeployTask\<close> setting, \<^verbatim>\<open>runPreDeployTask\<close>
  throws and so does deploy, with no call and no output after those made before
  \<^verbatim>\<open>runPreDeployTask\<close>. If the name was inferred from the language, \<^verbatim>\<open>runPreDeployTask\<close>
  returns after showing the output channel and writing the warning to it, deploy goes on
  with the part after \<^verbatim>\<open>runPreDeployTask\<close>, and the upload is called. The part of deploy
  before \<^verbatim>\<open>runPreDeployTask\<close> calls nothing but the confirmation prompt.
\<close>

theorem missing_preDeployTask:
  "(d_isZipDeploy d
      \<and> preDeployTaskName k (preDeployTaskSetting env) (d_language d) (d_runtime d) = Some name
      \<and> findPreDeployTask env name (d_deployFsPath d) (tasks env) = None
      \<and> beforePreDeployTask env target functionAppId w = (Returned d, w1)
    \<longrightarrow> (truthy (preDeployTaskSetting env) \<longrightarrow>
           fst (runPreDeployTask k env (d_deployFsPath d) (d_language d) True (d_runtime d) w1)
             = Threw (NoPreDeployTaskError name)
           \<and> fst (deploy k env target functionAppId w) = Threw (NoPreDeployTaskError name)
           \<and> calls (snd (deploy k env target functionAppId w)) = calls w1
           \<and> outputChannel (snd (deploy k env target functionAppId w)) = outputChannel w1)
        \<and> (\<not> truthy (preDeployTaskSetting env) \<longrightarrow>
           (\<exists>w2. runPreDeployTask k env (d_deployFsPath d) (d_language d) True (d_runtime d) w1
                    = (Returned (), w2)
                \<and> outputChannel w2 = outputChannel w1 @
                     [ShowChannel True,
                      AppendLine [NoPreDeployTaskWarning name, HowToAddPreDeploy,
                                  HowToAddPreDeploy1, HowToAddPreDeploy2, HowToAddPreDeploy3]]
                \<and> calls w2 = calls w1
                \<and> deploy k env target functionAppId w = afterPreDeployTask env d w2)
           \<and> AppserviceDeploy (uploadPath d) \<in> set (calls (snd (deploy k env target functionAppId w)))))
   \<and> (beforePreDeployTask env target functionAppId w = (r, w1)
        \<longrightarrow> (\<exists>cs. calls w1 = calls w @ cs \<and> set cs \<subseteq> {ShowConfirmDeployWarning True}))"
proof (intro conjI impI)
  assume a: "d_isZipDeploy d
      \<and> preDeployTaskName k (preDeployTaskSetting env) (d_language d) (d_runtime d) = Some name
      \<and> findPreDeployTask env name (d_deployFsPath d) (tasks env) = None
      \<and> beforePreDeployTask env target functionAppId w = (Returned d, w1)"
  then have nf: "runPreDeployTask k env (d_deployFsPath d) (d_language d) True (d_runtime d) w1 =
           (if truthy (preDeployTaskSetting env)
            then (Threw (NoPreDeployTaskError name),
                  setTelemetry ''foundPreDeployTask'' ''false'' (setTelemetry ''preDeployTask'' name w1))
            else (Returned (),
                  toOutput (AppendLine [NoPreDeployTaskWarning name, HowToAddPreDeploy,
                                        HowToAddPreDeploy1, HowToAddPreDeploy2, HowToAddPreDeploy3])
                    (toOutput (ShowChannel True)
                       (setTelemetry ''foundPreDeployTask'' ''false''
                          (setTelemetry ''preDeployTask'' name w1)))))"
    using runPreDeployTask_not_found by blast
  from a have before: "beforePreDeployTask env target functionAppId w = (Returned d, w1)"
    and zip: "d_isZipDeploy d = True" by simp_all
  {
    assume t: "truthy (preDeployTaskSetting env)"
    let ?w2 = "setTelemetry ''foundPreDeployTask'' ''false'' (setTelemetry ''preDeployTask'' name w1)"
    have r: "runPreDeployTask k env (d_deployFsPath d) (d_language d) (d_isZipDeploy d) (d_runtime d) w1
               = (Threw (NoPreDeployTaskError name), ?w2)"
      using nf t zip by simp
    have dep: "deploy k env target functionAppId w = (Threw (NoPreDeployTaskError name), ?w2)"
      by (rule deploy_throws_in_runPreDeployTask [OF before r])
    show "fst (runPreDeployTask k env (d_deployFsPath d) (d_language d) True (d_runtime d) w1)
             = Threw (NoPreDeployTaskError name)"
      using nf t by simp
    show "fst (deploy k env target functionAppId w) = Threw (NoPreDeployTaskError name)"
      by (simp add: dep)
    show "calls (snd (deploy k env target functionAppId w)) = calls w1"
      by (simp add: dep setTelemetry_def)
    show "outputChannel (snd (deploy k env target functionAppId w)) = outputChannel w1"
      by (simp add: dep setTelemetry_def)
  }
  {
    assume t: "\<not> truthy (preDeployTaskSetting env)"
    let ?w2 = "toOutput (AppendLine [NoPreDeployTaskWarning name, HowToAddPreDeploy,
                                        HowToAddPreDeploy1, HowToAddPreDeploy2, HowToAddPreDeploy3])
                    (toOutput (ShowChannel True)
                       (setTelemetry ''foundPreDeployTask'' ''false''
                          (setTelemetry ''preDeployTask'' name w1)))"
    have r: "runPreDeployTask k env (d_deployFsPath d) (d_language d) (d_isZipDeploy d) (d_runtime d) w1
               = (Returned (), ?w2)"
      using nf t zip by simp
    have dep: "deploy k env target functionAppId w = afterPreDeployTask env d ?w2"
      by (rule deploy_reaches_upload [OF before r])
    show "\<exists>w2. runPreDeployTask k env (d_deployFsPath d) (d_language d) True (d_runtime d) w1
                    = (Returned (), w2)
                \<and> outputChannel w2 = outputChannel w1 @
                     [ShowChannel True,
                      AppendLine [NoPreDeployTaskWarning name, HowToAddPreDeploy,
                                  HowToAddPreDeploy1, HowToAddPreDeploy2, HowToAddPreDeploy3]]
                \<and> calls w2 = calls w1
                \<and> deploy k env target functionAppId w = afterPreDeployTask env d w2"
      using nf t dep by (intro exI [of _ ?w2]) (simp add: toOutput_def setTelemetry_def)
    have "d_language d \<noteq> Java"
      using a t inferred_language_not_Java by blast
    then show "AppserviceDeploy (uploadPath d) \<in> set (calls (snd (deploy k env target functionAppId w)))"
      by (simp add: dep afterPreDeployTask_calls deploying_calls)
  }
next
  assume "beforePreDeployTask env target functionAppId w = (r, w1)"
  then show "\<exists>cs. calls w1 = calls w @ cs \<and> set cs \<subseteq> {ShowConfirmDeployWarning True}"
    using addsOnlyD [OF addsOnly_beforePreDeployTask] by blast
qed


section \<open>Stopping and starting a Java function app\<close>

text \<open>
  C9. Suppose deploy has passed \<^verbatim>\<open>runPreDeployTask\<close>. For a Java project the calls that
  follow are \<^verbatim>\<open>client.stop\<close>, then (when the stop succeeds) \<^verbatim>\<open>appservice.deploy\<close>, then
  \<^verbatim>\<open>client.start\<close> in every case; when the upload throws and the stop and the start
  succeed, deploy throws the error of the upload after the start. For any other language
  the only call is \<^verbatim>\<open>appservice.deploy\<close> (and the completion message when it succeeds).
  Before that point deploy has called nothing but the confirmation prompt and
  \<^verbatim>\<open>executeTask\<close>. When the project language is not Java, no run of deploy calls
  \<^verbatim>\<open>client.stop\<close> or \<^verbatim>\<open>client.start\<close>.
\<close>

theorem deploy_restarts_java_app:
  "(beforePreDeployTask env target functionAppId w = (Returned d, w1)
      \<and> runPreDeployTask k env (d_deployFsPath d) (d_language d) (d_isZipDeploy d) (d_runtime d) w1
           = (Returned (), w2)
    \<longrightarrow> (d_language d = Java \<longrightarrow>
           calls (snd (deploy k env target functionAppId w)) =
             calls w2 @ ClientStop
               # (if clientStop env = None then [AppserviceDeploy (uploadPath d)] else [])
               @ ClientStart
               # (if clientStop env = None \<and> appserviceDeploy env = None \<and> clientStart env = None
                  then [ShowDeployCompleteMessage] else [])
           \<and> (\<forall>e. clientStop env = None \<and> appserviceDeploy env = Some e \<and> clientStart env = None
                 \<longrightarrow> fst (deploy k env target functionAppId w) = Threw e))
        \<and> (d_language d \<noteq> Java \<longrightarrow>
           calls (snd (deploy k env target functionAppId w)) =
             calls w2 @ AppserviceDeploy (uploadPath d)
               # (if appserviceDeploy env = None then [ShowDeployCompleteMessage] else []))
        \<and> (\<exists>cs. calls w2 = calls w @ cs
                \<and> set cs \<subseteq> insert (ShowConfirmDeployWarning True) (range ExecuteTask)))
   \<and> (projectLanguage env \<noteq> Inr Java \<and> ClientStop \<notin> set (calls w) \<and> ClientStart \<notin> set (calls w)
        \<longrightarrow> ClientStop \<notin> set (calls (snd (deploy k env target functionAppId w)))
            \<and> ClientStart \<notin> set (calls (snd (deploy k env target functionAppId w))))"
proof (intro conjI impI allI)
  assume a: "beforePreDeployTask env target functionAppId w = (Returned d, w1)
      \<and> runPreDeployTask k env (d_deployFsPath d) (d_language d) (d_isZipDeploy d) (d_runtime d) w1
           = (Returned (), w2)"
  then have dep: "deploy k env target functionAppId w = afterPreDeployTask env d w2"
    using deploy_reaches_upload by blast
  {
    assume "d_language d = Java"
    then show "calls (snd (deploy k env target functionAppId w)) =
             calls w2 @ ClientStop
               # (if clientStop env = None then [AppserviceDeploy (uploadPath d)] else [])
               @ ClientStart
               # (if clientStop env = None \<and> appserviceDeploy env = None \<and> clientStart env = None
                  then [ShowDeployCompleteMessage] else [])"
      by (auto simp: dep afterPreDeployTask_calls deploying_calls deploying_result
          split: option.splits)
  }
  {
    fix e
    assume "d_language d = Java"
      and "clientStop env = None \<and> appserviceDeploy env = Some e \<and> clientStart env = None"
    then have "fst (deploying env (d_language d) (uploadPath d) w2) = Threw e"
      by (simp add: deploying_result)
    then show "fst (deploy k env target functionAppId w) = Threw e"
      by (simp add: dep afterPreDeployTask_result)
  }
  {
    assume "d_language d \<noteq> Java"
    then show "calls (snd (deploy k env target functionAppId w)) =
             calls w2 @ AppserviceDeploy (uploadPath d)
               # (if appserviceDeploy env = None then [ShowDeployCompleteMessage] else [])"
      by (auto simp: dep afterPreDeployTask_calls deploying_calls deploying_result
          split: option.splits)
  }
  {
    obtain cs where cs: "calls w1 = calls w @ cs" "set cs \<subseteq> {ShowConfirmDeployWarning True}"
      using a addsOnlyD [OF addsOnly_beforePreDeployTask] by blast
    obtain ds where ds: "calls w2 = calls w1 @ ds" "set ds \<subseteq> range ExecuteTask"
      using a addsOnlyD [OF addsOnly_runPreDeployTask] by blast
    show "\<exists>cs. calls w2 = calls w @ cs
                \<and> set cs \<subseteq> insert (ShowConfirmDeployWarning True) (range ExecuteTask)"
      using cs ds by (intro exI [of _ "cs @ ds"]) auto
  }
next
  assume b: "projectLanguage env \<noteq> Inr Java \<and> ClientStop \<notin> set (calls w) \<and> ClientStart \<notin> set (calls w)"
  let ?S = "- {ClientStop, ClientStart}"
  have "\<exists>cs. calls (snd (deploy k env target functionAppId w)) = calls w @ cs \<and> set cs \<subseteq> ?S"
  proof -
    obtain r w1 where before: "beforePreDeployTask env target functionAppId w = (r, w1)"
      by (cases "beforePreDeployTask env target functionAppId w")
    obtain cs where cs: "calls w1 = calls w @ cs" "set cs \<subseteq> {ShowConfirmDeployWarning True}"
      using addsOnlyD [OF addsOnly_beforePreDeployTask before] by blast
    show ?thesis
    proof (cases r)
      case (Returned d)
      then have lang: "d_language d \<noteq> Java"
        using b before beforePreDeployTask_language by fastforce
      obtain r2 w2 where pre: "runPreDeployTask k env (d_deployFsPath d) (d_language d)
                                 (d_isZipDeploy d) (d_runtime d) w1 = (r2, w2)"
        by (cases "runPreDeployTask k env (d_deployFsPath d) (d_language d)
                     (d_isZipDeploy d) (d_runtime d) w1")
      obtain ds where ds: "calls w2 = calls w1 @ ds" "set ds \<subseteq> range ExecuteTask"
        using addsOnlyD [OF addsOnly_runPreDeployTask pre] by blast
      show ?thesis
      proof (cases r2)
        case (Returned u)
        then have dep: "deploy k env target functionAppId w = afterPreDeployTask env d w2"
          using before pre \<open>r = Returned d\<close> deploy_reaches_upload by simp
        show ?thesis
          using cs ds lang
          by (intro exI [of _ "cs @ ds @ AppserviceDeploy (uploadPath d)
                 # (if appserviceDeploy env = None then [ShowDeployCompleteMessage] else [])"])
            (auto simp: dep afterPreDeployTask_calls deploying_calls deploying_result
              split: option.splits)
      next
        case (Threw e)
        then have "deploy k env target functionAppId w = (Threw e, w2)"
          using before pre \<open>r = Returned d\<close> by (simp add: deploy_def andThen_def)
        then show ?thesis using cs ds by (intro exI [of _ "cs @ ds"]) auto
      next
        case NeverSettles
        then have "deploy k env target functionAppId w = (NeverSettles, w2)"
          using before pre \<open>r = Returned d\<close> by (simp add: deploy_def andThen_def)
        then show ?thesis using cs ds by (intro exI [of _ "cs @ ds"]) auto
      qed
    next
      case (Threw e)
      then have "deploy k env target functionAppId w = (Threw e, w1)"
        using before by (simp add: deploy_def andThen_def)
      then show ?thesis using cs by (intro exI [of _ cs]) auto
    next
      case NeverSettles
      then have "deploy k env target functionAppId w = (NeverSettles, w1)"
        using before by (simp add: deploy_def andThen_def)
      then show ?thesis using cs by (intro exI [of _ cs]) auto
    qed
  qed
  then obtain cs where "calls (snd (deploy k env target functionAppId w)) = calls w @ cs" "set cs \<subseteq> ?S"
    by blast
  then show "ClientStop \<notin> set (calls (snd (deploy k env target functionAppId w)))"
    and "ClientStart \<notin> set (calls (snd (deploy k env target functionAppId w)))"
    using b by auto
qed


section \<open>Deployments evaluated\<close>

lemma sample_beforePreDeployTask:
  "lang \<noteq> Python \<Longrightarrow> scm \<noteq> Some LocalGit \<Longrightarrow>
   beforePreDeployTask (sampleDeployment scm setting lang ts events upload)
     (TargetNode sampleNode) IdUndefined emptyWorld
   = (Returned (sampleDeploying scm lang
        (if lang = Java then ''/w/app/target/azure-functions/app'' else ''/w/app'')),
      confirmedWorld)"
  by (cases scm)
    (simp_all add: beforePreDeployTask_def sampleDeployment_def chooseNode_def andThen_def
      external_def externalVoid_def returns_def throws_def perform_def Let_def
      scmTypeValue_def showWarningMessage_def setTelemetry_def logCall_def emptyWorld_def
      confirmedWorld_def sampleDeploying_def)

text \<open>
  C5, at a site whose \<^verbatim>\<open>scmType\<close> is GitHub, with the node given as target (so not newly
  created): deploy computes \<^verbatim>\<open>isZipDeploy\<close> as true, shows the confirmation prompt and,
  once confirmed, uploads.
\<close>

theorem deploy_confirms_for_GitHub:
  "map_Completion d_isZipDeploy
     (fst (beforePreDeployTask (sampleDeployment (Some GitHub) None JavaScript [] [] None)
             (TargetNode sampleNode) IdUndefined emptyWorld)) = Returned True
   \<and> calls (snd (beforePreDeployTask (sampleDeployment (Some GitHub) None JavaScript [] [] None)
                    (TargetNode sampleNode) IdUndefined emptyWorld))
       = [ShowConfirmDeployWarning True]
   \<and> calls (snd (deploy sampleConstants (sampleDeployment (Some GitHub) None JavaScript [] [] None)
                    (TargetNode sampleNode) IdUndefined emptyWorld))
       = [ShowConfirmDeployWarning True, AppserviceDeploy ''/w/app'', ShowDeployCompleteMessage]"
proof -
  let ?env = "sampleDeployment (Some GitHub) None JavaScript [] [] None"
  have b: "beforePreDeployTask ?env (TargetNode sampleNode) IdUndefined emptyWorld
             = (Returned (sampleDeploying (Some GitHub) JavaScript ''/w/app''), confirmedWorld)"
    using sample_beforePreDeployTask [of JavaScript "Some GitHub"] by simp
  have env: "preDeployTaskSetting ?env = None" "tasks ?env = []" "appserviceDeploy ?env = None"
    "listHttpTriggerUrls ?env = None"
    by (simp_all add: sampleDeployment_def)
  have d: "calls (snd (deploy sampleConstants ?env (TargetNode sampleNode) IdUndefined emptyWorld))
       = [ShowConfirmDeployWarning True, AppserviceDeploy ''/w/app'', ShowDeployCompleteMessage]"
    by (simp add: deploy_def andThen_def b runPreDeployTask_def preDeployTaskName_def truthy_def
        env sampleDeploying_def Let_def afterPreDeployTask_calls deploying_calls deploying_result
        uploadPath_def setTelemetry_def toOutput_def confirmedWorld_def)
  show ?thesis
    using d by (simp add: b sampleDeploying_def confirmedWorld_def)
qed

lemma toLowerCase_package: "toLowerCase ''package'' = ''package''"
  by code_simp

theorem missing_preDeployTask_witness:
  "fst (deploy sampleConstants (sampleDeployment None (Some ''package'') CSharp [buildTask] [] None)
          (TargetNode sampleNode) IdUndefined emptyWorld) = Threw (NoPreDeployTaskError ''package'')
   \<and> calls (snd (deploy sampleConstants
                    (sampleDeployment None (Some ''package'') CSharp [buildTask] [] None)
                    (TargetNode sampleNode) IdUndefined emptyWorld)) = [ShowConfirmDeployWarning True]
   \<and> AppserviceDeploy ''/w/app''
       \<in> set (calls (snd (deploy sampleConstants
                             (sampleDeployment None None CSharp [buildTask] [] None)
                             (TargetNode sampleNode) IdUndefined emptyWorld)))"
proof -
  let ?set = "sampleDeployment None (Some ''package'') CSharp [buildTask] [] None"
  let ?unset = "sampleDeployment None None CSharp [buildTask] [] None"
  let ?d = "sampleDeploying None CSharp ''/w/app''"
  have b1: "beforePreDeployTask ?set (TargetNode sampleNode) IdUndefined emptyWorld
              = (Returned ?d, confirmedWorld)"
    using sample_beforePreDeployTask [of CSharp None] by simp
  have b2: "beforePreDeployTask ?unset (TargetNode sampleNode) IdUndefined emptyWorld
              = (Returned ?d, confirmedWorld)"
    using sample_beforePreDeployTask [of CSharp None] by simp
  have h1: "d_isZipDeploy ?d
      \<and> preDeployTaskName sampleConstants (preDeployTaskSetting ?set) (d_language ?d) (d_runtime ?d)
          = Some ''package''
      \<and> findPreDeployTask ?set ''package'' (d_deployFsPath ?d) (tasks ?set) = None
      \<and> beforePreDeployTask ?set (TargetNode sampleNode) IdUndefined emptyWorld
          = (Returned ?d, confirmedWorld)"
    by (simp add: b1)
      (simp add: sampleDeploying_def sampleDeployment_def preDeployTaskName_def truthy_def
        isPreDeployTask_def toLowerCase_package toLowerCase_build buildTask_def newTask_def)
  have h2: "d_isZipDeploy ?d
      \<and> preDeployTaskName sampleConstants (preDeployTaskSetting ?unset) (d_language ?d) (d_runtime ?d)
          = Some ''publish''
      \<and> findPreDeployTask ?unset ''publish'' (d_deployFsPath ?d) (tasks ?unset) = None
      \<and> beforePreDeployTask ?unset (TargetNode sampleNode) IdUndefined emptyWorld
          = (Returned ?d, confirmedWorld)"
    by (simp add: b2)
      (simp add: sampleDeploying_def sampleDeployment_def preDeployTaskName_def truthy_def
        isPreDeployTask_def toLowerCase_publish toLowerCase_build buildTask_def newTask_def
        sampleConstants_def)
  have t1: "truthy (preDeployTaskSetting ?set)" and t2: "\<not> truthy (preDeployTaskSetting ?unset)"
    by (simp_all add: sampleDeployment_def truthy_def)
  have u: "uploadPath ?d = ''/w/app''"
    by (simp add: uploadPath_def sampleDeploying_def)
  show ?thesis
    using missing_preDeployTask [of ?d sampleConstants ?set "''package''" "TargetNode sampleNode"
        IdUndefined emptyWorld confirmedWorld] h1 t1
      missing_preDeployTask [of ?d sampleConstants ?unset "''publish''" "TargetNode sampleNode"
        IdUndefined emptyWorld confirmedWorld] h2 t2 u
    by (simp add: confirmedWorld_def)
qed

theorem deploy_restarts_java_app_witness:
  "calls (snd (deploy sampleConstants
                 (sampleDeployment None None Java [] [] (Some (ExternalError ''upload failed'')))
                 (TargetNode sampleNode) IdUndefined emptyWorld))
     = [ShowConfirmDeployWarning True, ClientStop,
        AppserviceDeploy ''/w/app/target/azure-functions/app'', ClientStart]
   \<and> fst (deploy sampleConstants
            (sampleDeployment None None Java [] [] (Some (ExternalError ''upload failed'')))
            (TargetNode sampleNode) IdUndefined emptyWorld) = Threw (ExternalError ''upload failed'')
   \<and> calls (snd (deploy sampleConstants
                 (sampleDeployment None None (OtherLanguage ''Bash'') [] [] None)
                 (TargetNode sampleNode) IdUndefined emptyWorld))
     = [ShowConfirmDeployWarning True, AppserviceDeploy ''/w/app'', ShowDeployCompleteMessage]"
proof -
  let ?java = "sampleDeployment None None Java [] [] (Some (ExternalError ''upload failed''))"
  let ?bash = "sampleDeployment None None (OtherLanguage ''Bash'') [] [] None"
  let ?dj = "sampleDeploying None Java ''/w/app/target/azure-functions/app''"
  let ?db = "sampleDeploying None (OtherLanguage ''Bash'') ''/w/app''"
  have bj: "beforePreDeployTask ?java (TargetNode sampleNode) IdUndefined emptyWorld
              = (Returned ?dj, confirmedWorld)"
    using sample_beforePreDeployTask [of Java None] by simp
  have bb: "beforePreDeployTask ?bash (TargetNode sampleNode) IdUndefined emptyWorld
              = (Returned ?db, confirmedWorld)"
    using sample_beforePreDeployTask [of "OtherLanguage ''Bash''" None] by simp
  have pj: "runPreDeployTask sampleConstants ?java (d_deployFsPath ?dj) (d_language ?dj)
              (d_isZipDeploy ?dj) (d_runtime ?dj) confirmedWorld = (Returned (), confirmedWorld)"
    by (simp add: runPreDeployTask_def preDeployTaskName_def truthy_def sampleDeployment_def
        sampleDeploying_def)
  have pb: "runPreDeployTask sampleConstants ?bash (d_deployFsPath ?db) (d_language ?db)
              (d_isZipDeploy ?db) (d_runtime ?db) confirmedWorld = (Returned (), confirmedWorld)"
    by (simp add: runPreDeployTask_def preDeployTaskName_def truthy_def sampleDeployment_def
        sampleDeploying_def)
  have ej: "clientStop ?java = None \<and> appserviceDeploy ?java = Some (ExternalError ''upload failed'')
              \<and> clientStart ?java = None"
    and eb: "appserviceDeploy ?bash = None"
    by (simp_all add: sampleDeployment_def)
  have u: "uploadPath ?dj = ''/w/app/target/azure-functions/app''" "uploadPath ?db = ''/w/app''"
    "d_language ?dj = Java" "d_language ?db \<noteq> Java"
    by (simp_all add: uploadPath_def sampleDeploying_def)
  show ?thesis
    using deploy_restarts_java_app [of ?java "TargetNode sampleNode" IdUndefined emptyWorld ?dj
        confirmedWorld sampleConstants confirmedWorld] bj pj ej
      deploy_restarts_java_app [of ?bash "TargetNode sampleNode" IdUndefined emptyWorld ?db
        confirmedWorld sampleConstants confirmedWorld] bb pb eb u
    by (simp add: confirmedWorld_def)
qed


end
